theory Spec2Isabelle
  imports Complex_Main "HOL-Library.Log_Nat"
begin

section \<open>JavaScript numbers\<close>

text \<open>
  A JavaScript number is an IEEE 754 double: a rational of the form \<open>m * 2^e\<close> with
  \<open>\<bar>m\<bar> < 2^53\<close> and \<open>- 1074 \<le> e \<le> 971\<close>, an infinity, or \<^verbatim>\<open>NaN\<close>. The sign of zero
  is not kept: the summary never divides by a zero, and JSON prints both zeros as
  \<^verbatim>\<open>0\<close>. Every operation gives the exact result rounded to the nearest double, ties
  to the even significand (\<open>round_double\<close>); \<open>floor_log2\<close> is the binary exponent of a
  positive rational.
\<close>

datatype double = Finite rat | PosInf | NegInf | NaN

definition pow2 :: "int \<Rightarrow> rat" where
  "pow2 e = (if 0 \<le> e then 2 ^ nat e else 1 / 2 ^ nat (- e))"

definition floor_log2 :: "rat \<Rightarrow> int" where
  "floor_log2 q =
     (let (a, b) = quotient_of q; d = bitlen a - bitlen b
      in if pow2 d \<le> q then d else d - 1)"

definition round_even :: "rat \<Rightarrow> int" where
  "round_even x =
     (let n = \<lfloor>x\<rfloor>; r = x - of_int n
      in if r < 1 / 2 then n else if 1 / 2 < r then n + 1
         else if even n then n else n + 1)"

definition round_double :: "rat \<Rightarrow> double" where
  "round_double q =
     (if q = 0 then Finite 0
      else (let m = \<bar>q\<bar>;
                e = max (floor_log2 m) (- 1022);
                ulp = pow2 (e - 52);
                r = of_int (round_even (m / ulp)) * ulp
            in if pow2 1024 \<le> r then (if 0 < q then PosInf else NegInf)
               else Finite (sgn q * r)))"

text \<open>\<^verbatim>\<open>x + y\<close>, \<^verbatim>\<open>- x\<close>, \<^verbatim>\<open>x - y\<close> and \<^verbatim>\<open>x / y\<close>.\<close>

fun dadd :: "double \<Rightarrow> double \<Rightarrow> double" where
  "dadd (Finite a) (Finite b) = round_double (a + b)"
| "dadd NaN y = NaN"
| "dadd x NaN = NaN"
| "dadd PosInf NegInf = NaN"
| "dadd NegInf PosInf = NaN"
| "dadd PosInf y = PosInf"
| "dadd NegInf y = NegInf"
| "dadd x PosInf = PosInf"
| "dadd x NegInf = NegInf"

fun dneg :: "double \<Rightarrow> double" where
  "dneg (Finite a) = Finite (- a)"
| "dneg PosInf = NegInf"
| "dneg NegInf = PosInf"
| "dneg NaN = NaN"

definition dsub :: "double \<Rightarrow> double \<Rightarrow> double" where
  "dsub x y = dadd x (dneg y)"

fun ddiv :: "double \<Rightarrow> double \<Rightarrow> double" where
  "ddiv (Finite a) (Finite b) =
     (if b = 0 then (if a = 0 then NaN else if 0 < a then PosInf else NegInf)
      else round_double (a / b))"
| "ddiv NaN y = NaN"
| "ddiv x NaN = NaN"
| "ddiv (Finite a) y = Finite 0"
| "ddiv PosInf (Finite b) = (if b < 0 then NegInf else PosInf)"
| "ddiv NegInf (Finite b) = (if b < 0 then PosInf else NegInf)"
| "ddiv x y = NaN"

text \<open>\<^verbatim>\<open>x > 0\<close>, JavaScript's \<^verbatim>\<open>ToBoolean\<close> of a number, and an array's length as a number.\<close>

fun positive :: "double \<Rightarrow> bool" where
  "positive (Finite a) = (0 < a)"
| "positive PosInf = True"
| "positive NegInf = False"
| "positive NaN = False"

fun truthy_number :: "double \<Rightarrow> bool" where
  "truthy_number (Finite a) = (a \<noteq> 0)"
| "truthy_number PosInf = True"
| "truthy_number NegInf = True"
| "truthy_number NaN = False"

definition of_length :: "nat \<Rightarrow> double" where
  "of_length n = round_double (of_nat n)"

section \<open>Sorting by a compare function\<close>

text \<open>
  \<^verbatim>\<open>Array.prototype.sort(comparefn)\<close> belongs to the engine, not to the repository: it
  is a parameter \<open>jsSort\<close> of the model. A compare function answers a number, \<open>None\<close>
  for \<^verbatim>\<open>NaN\<close>; the engine reads \<^verbatim>\<open>NaN\<close> as \<open>0\<close> (\<open>sortCompare\<close>) and uses only the
  sign. What ECMAScript requires of every engine: the sort is stable, and when the
  compare function orders the elements consistently, here by an integer key, the
  result is in that order. That result is \<open>sort_key\<close>, the stable sort by the key. When
  the compare function is not consistent the order is left to the engine.
\<close>

definition sortCompare :: "int option \<Rightarrow> int" where
  "sortCompare v = (case v of None \<Rightarrow> 0 | Some d \<Rightarrow> d)"

definition conforming :: "(('a \<Rightarrow> 'a \<Rightarrow> int option) \<Rightarrow> 'a list \<Rightarrow> 'a list) \<Rightarrow> bool" where
  "conforming jsSort \<longleftrightarrow>
     (\<forall>comparefn key xs.
        (\<forall>a\<in>set xs. \<forall>b\<in>set xs. sgn (sortCompare (comparefn a b)) = sgn (key a - key b))
        \<longrightarrow> jsSort comparefn xs = sort_key key xs)"

text \<open>One such sort, by insertion from the right.\<close>

fun insert_by :: "('a \<Rightarrow> 'a \<Rightarrow> int option) \<Rightarrow> 'a \<Rightarrow> 'a list \<Rightarrow> 'a list" where
  "insert_by comparefn x [] = [x]"
| "insert_by comparefn x (y # ys) =
     (if sortCompare (comparefn x y) \<le> 0 then x # y # ys
      else y # insert_by comparefn x ys)"

definition insertionSort :: "('a \<Rightarrow> 'a \<Rightarrow> int option) \<Rightarrow> 'a list \<Rightarrow> 'a list" where
  "insertionSort comparefn xs = foldr (insert_by comparefn) xs []"

section \<open>Animal records and the dashboard summary\<close>

text \<open>
  The shared types of \<^verbatim>\<open>animal-types.ts\<close>. Only the fields that the summary
  handler reads are kept; the field \<^verbatim>\<open>id\<close> of an animal is \<open>a_id\<close>, its
  \<^verbatim>\<open>type\<close>, \<^verbatim>\<open>gender\<close> and \<^verbatim>\<open>status\<close> are \<open>a_type\<close>, \<open>a_gender\<close> and
  \<open>a_status\<close>; the \<^verbatim>\<open>id\<close> and \<^verbatim>\<open>date\<close> of a weight record are \<open>w_id\<close> and
  \<open>w_date\<close>. An optional number (\<^verbatim>\<open>currentWeight?: number\<close>) is a \<open>double option\<close>.
\<close>

datatype AnimalType = goat | sheep

datatype AnimalGender = male | female

datatype AnimalStatus = active | sold | dead | ready_to_sell

record AnimalRecord =
  a_id :: string
  a_type :: AnimalType
  a_gender :: AnimalGender
  a_status :: AnimalStatus
  currentWeight :: "double option"
  purchasePrice :: "double option"
  salePrice :: "double option"

record WeightRecord =
  w_id :: string
  animalId :: string
  weight :: double
  w_date :: string

record AnimalSummary =
  totalAnimals :: nat
  totalGoats :: nat
  totalSheep :: nat
  totalMales :: nat
  totalFemales :: nat
  activeAnimals :: nat
  soldAnimals :: nat
  readyToSell :: nat
  deadAnimals :: nat
  averageWeight :: double
  totalInvestment :: double
  totalRevenue :: double
  profitLoss :: double

text \<open>
  \<^verbatim>\<open>x || 0\<close> on an optional number: an absent value, a zero and \<^verbatim>\<open>NaN\<close> all give
  \<open>0\<close>.
\<close>

definition or_zero :: "double option \<Rightarrow> double" where
  "or_zero x = (case x of None \<Rightarrow> Finite 0 | Some v \<Rightarrow> if truthy_number v then v else Finite 0)"

text \<open>
  The compare function \<^verbatim>\<open>(a, b) => new Date(b.date).getTime() - new Date(a.date).getTime()\<close>.
  \<open>getTime\<close> stands for \<^verbatim>\<open>new Date(s).getTime()\<close>: the time in milliseconds, or
  \<open>None\<close> (\<^verbatim>\<open>NaN\<close>) when the string is not a date. Times are whole numbers below
  \<open>2^53\<close>; their difference is rounded, which keeps its sign, and it is \<^verbatim>\<open>NaN\<close> when one
  of the two is.
\<close>

definition byDateDesc :: "(string \<Rightarrow> int option) \<Rightarrow> WeightRecord \<Rightarrow> WeightRecord \<Rightarrow> int option" where
  "byDateDesc getTime a b =
     (case getTime (w_date b) of
        None \<Rightarrow> None
      | Some tb \<Rightarrow> (case getTime (w_date a) of None \<Rightarrow> None | Some ta \<Rightarrow> Some (tb - ta)))"

text \<open>
  The callback of \<^verbatim>\<open>animals.map\<close> in \<^verbatim>\<open>getAnimalSummary\<close>: the weight records of
  the animal, sorted by the compare function, and the weight of the first one, or
  \<^verbatim>\<open>animal.currentWeight || 0\<close> when there is none.
\<close>

definition latestWeight ::
  "((WeightRecord \<Rightarrow> WeightRecord \<Rightarrow> int option) \<Rightarrow> WeightRecord list \<Rightarrow> WeightRecord list)
     \<Rightarrow> (string \<Rightarrow> int option) \<Rightarrow> WeightRecord list \<Rightarrow> AnimalRecord \<Rightarrow> double" where
  "latestWeight jsSort getTime weightRecords animal =
     (let animalWeightRecords =
            jsSort (byDateDesc getTime)
              (filter (\<lambda>w. animalId w = a_id animal) weightRecords)
      in if length animalWeightRecords > 0
         then weight (hd animalWeightRecords)
         else or_zero (currentWeight animal))"

definition getAnimalSummary ::
  "((WeightRecord \<Rightarrow> WeightRecord \<Rightarrow> int option) \<Rightarrow> WeightRecord list \<Rightarrow> WeightRecord list)
     \<Rightarrow> (string \<Rightarrow> int option) \<Rightarrow> AnimalRecord list \<Rightarrow> WeightRecord list \<Rightarrow> AnimalSummary" where
  "getAnimalSummary jsSort getTime animals weightRecords =
     (let animalWeights =
            filter (\<lambda>weight. positive weight)
              (map (latestWeight jsSort getTime weightRecords) animals);
          avg = (if length animalWeights > 0
                 then ddiv (foldl (\<lambda>sum weight. dadd sum weight) (Finite 0) animalWeights)
                        (of_length (length animalWeights))
                 else Finite 0);
          investment = foldl (\<lambda>sum animal. dadd sum (or_zero (purchasePrice animal)))
                         (Finite 0) animals;
          revenue = foldl (\<lambda>sum animal. dadd sum (or_zero (salePrice animal))) (Finite 0)
                      (filter (\<lambda>a. a_status a = sold) animals)
      in \<lparr> totalAnimals = length animals,
           totalGoats = length (filter (\<lambda>a. a_type a = goat) animals),
           totalSheep = length (filter (\<lambda>a. a_type a = sheep) animals),
           totalMales = length (filter (\<lambda>a. a_gender a = male) animals),
           totalFemales = length (filter (\<lambda>a. a_gender a = female) animals),
           activeAnimals = length (filter (\<lambda>a. a_status a = active) animals),
           soldAnimals = length (filter (\<lambda>a. a_status a = sold) animals),
           readyToSell = length (filter (\<lambda>a. a_status a = ready_to_sell) animals),
           deadAnimals = length (filter (\<lambda>a. a_status a = dead) animals),
           averageWeight = avg,
           totalInvestment = investment,
           totalRevenue = revenue,
           profitLoss = dsub revenue investment \<rparr>)"



definition time_of :: "(string \<Rightarrow> int option) \<Rightarrow> WeightRecord \<Rightarrow> int" where
  "time_of getTime w = (case getTime (w_date w) of None \<Rightarrow> 0 | Some t \<Rightarrow> t)"

section \<open>JavaScript values\<close>

text \<open>
  The cells of a row read from the store are untyped (\<^verbatim>\<open>any\<close>): \<open>JUndefined\<close> is the
  value of a property the row does not have. \<open>truthy\<close> is JavaScript's \<^verbatim>\<open>ToBoolean\<close>
  and \<open>or_js a b\<close> is \<^verbatim>\<open>a || b\<close>.
\<close>

datatype jsval = JUndefined | JNull | JBool bool | JNum rat | JStr string

fun truthy :: "jsval \<Rightarrow> bool" where
  "truthy JUndefined = False"
| "truthy JNull = False"
| "truthy (JBool b) = b"
| "truthy (JNum n) = (n \<noteq> 0)"
| "truthy (JStr s) = (s \<noteq> [])"

definition or_js :: "jsval \<Rightarrow> jsval \<Rightarrow> jsval" where
  "or_js a b = (if truthy a then a else b)"

type_synonym jsobj = "string \<rightharpoonup> jsval"

definition get :: "jsobj \<Rightarrow> string \<Rightarrow> jsval" where
  "get item k = (case item k of None \<Rightarrow> JUndefined | Some v \<Rightarrow> v)"

section \<open>The expense reader\<close>

text \<open>
  The regular expression \<^verbatim>\<open>/^\d{4}-\d{2}-\d{2}$/\<close>, as a matcher that consumes the
  string from the left: \<open>digits n\<close> takes exactly \<open>n\<close> characters of \<^verbatim>\<open>0..9\<close>,
  \<open>lit c\<close> the character \<open>c\<close>; the match succeeds when nothing is left.
\<close>

definition is_digit :: "char \<Rightarrow> bool" where
  "is_digit c = (c \<in> set ''0123456789'')"

fun digits :: "nat \<Rightarrow> string \<Rightarrow> string option" where
  "digits 0 s = Some s"
| "digits (Suc n) [] = None"
| "digits (Suc n) (c # s) = (if is_digit c then digits n s else None)"

fun lit :: "char \<Rightarrow> string \<Rightarrow> string option" where
  "lit c [] = None"
| "lit c (x # s) = (if x = c then Some s else None)"

definition isoDatePattern :: "string \<Rightarrow> bool" where
  "isoDatePattern s =
     (Option.bind (Option.bind (Option.bind (Option.bind (digits 4 s)
        (lit CHR ''-'')) (digits 2)) (lit CHR ''-'')) (digits 2) = Some [])"

text \<open>\<^verbatim>\<open>s.split(c)\<close> for a one-character separator: always at least one part.\<close>

fun split :: "char \<Rightarrow> string \<Rightarrow> string list" where
  "split c [] = [[]]"
| "split c (x # s) =
     (if x = c then [] # split c s
      else (case split c s of [] \<Rightarrow> [[x]] | p # ps \<Rightarrow> (x # p) # ps))"

text \<open>
  \<^verbatim>\<open>s.padStart(n, c)\<close> for a one-character filler. The length of a string is the
  number of its characters: strings are taken to be ASCII.
\<close>

definition padStart :: "nat \<Rightarrow> char \<Rightarrow> string \<Rightarrow> string" where
  "padStart n c s = replicate (n - length s) c @ s"

datatype console_entry =
  ConsoleLog string | ConsoleWarn string | ConsoleError string | ConsoleDebug string

text \<open>
  The date block of the reader's callback, for \<^verbatim>\<open>dateStr = item.Date || item.date\<close>:
  it gives \<^verbatim>\<open>formattedDate\<close> and what it wrote to the console. \<open>today\<close> is
  \<^verbatim>\<open>new Date().toISOString().split("T")[0]\<close> and \<open>toString\<close> is JavaScript's
  \<^verbatim>\<open>String(v)\<close>. On a string neither \<^verbatim>\<open>test\<close> nor \<^verbatim>\<open>split\<close> nor \<^verbatim>\<open>padStart\<close>
  throws. A truthy value that is not a string (a number, \<^verbatim>\<open>true\<close>) does not match the
  pattern (its string form has no two hyphens among digits) and has no method
  \<^verbatim>\<open>split\<close>: the call throws, and the \<^verbatim>\<open>catch\<close> block writes the warning.
\<close>

definition formatDate :: "(jsval \<Rightarrow> string) \<Rightarrow> string \<Rightarrow> jsval \<Rightarrow> string \<times> console_entry list" where
  "formatDate toString today dateStr =
     (if truthy dateStr then
        (case dateStr of
           JStr s \<Rightarrow>
             (if isoDatePattern s then (s, [])
              else (case split CHR ''/'' s of
                      [month, day, year] \<Rightarrow>
                        (year @ ''-'' @ padStart 2 CHR ''0'' month @ ''-''
                           @ padStart 2 CHR ''0'' day, [])
                    | _ \<Rightarrow> (today, [])))
         | _ \<Rightarrow> (today, [ConsoleWarn (''Invalid date format: '' @ toString dateStr)]))
      else (today, []))"

text \<open>
  The callback of \<^verbatim>\<open>expenses.map((item, index) => ...)\<close>: the object it returns, as a
  map from property names, and its console output. \<open>parseFloat\<close> is JavaScript's.
\<close>

definition transformExpense ::
  "(jsval \<Rightarrow> string) \<Rightarrow> (jsval \<Rightarrow> jsval) \<Rightarrow> string \<Rightarrow> jsobj \<Rightarrow> nat \<Rightarrow> jsobj \<times> console_entry list" where
  "transformExpense toString parseFloat today item index =
     (let dateStr = or_js (get item ''Date'') (get item ''date'');
          (formattedDate, out) = formatDate toString today dateStr
      in (map_of
           [(''id'', JStr (toString (or_js (get item ''id'') (JNum (of_nat index + 1))))),
            (''date'', JStr formattedDate),
            (''type'', or_js (get item ''Type'') (or_js (get item ''type'') (JStr ''Expense''))),
            (''description'', or_js (get item ''Description'')
                (or_js (get item ''description'') (JStr ''No description''))),
            (''amount'', parseFloat (or_js (get item ''Amount'')
                (or_js (get item ''amount'') (JNum 0)))),
            (''paidBy'', or_js (get item ''Paid By'')
                (or_js (get item ''paidBy'') (JStr ''Unknown''))),
            (''category'', or_js (get item ''Category'')
                (or_js (get item ''category'') (JStr ''Other''))),
            (''subCategory'', or_js (get item ''Sub-Category'')
                (or_js (get item ''subCategory'') (JStr ''General''))),
            (''source'', or_js (get item ''Source'')
                (or_js (get item ''source'') (JStr ''Unknown''))),
            (''notes'', or_js (get item ''Notes'') (or_js (get item ''notes'') (JStr [])))],
          out))"

text \<open>
  \<^verbatim>\<open>readExpenses\<close>, given what the store answered to the query on \<^verbatim>\<open>allexpenses\<close>:
  \<open>data\<close> (\<open>None\<close> for \<^verbatim>\<open>null\<close>) and whether it reported an error. An error is
  written to the console and the rows, if any, are still transformed.
\<close>

definition readExpenses ::
  "(jsval \<Rightarrow> string) \<Rightarrow> (jsval \<Rightarrow> jsval) \<Rightarrow> string \<Rightarrow> jsobj list option \<Rightarrow> bool
     \<Rightarrow> jsobj list \<times> console_entry list" where
  "readExpenses toString parseFloat today data error =
     (let out0 = (if error then [ConsoleError ''Supabase error:''] else [])
      in case data of
           None \<Rightarrow> ([], out0)
         | Some expenses \<Rightarrow>
             (let results = map (\<lambda>(item, index). transformExpense toString parseFloat today item index)
                              (zip expenses [0..<length expenses])
              in (map fst results, out0 @ concat (map snd results))))"

section \<open>Expense records and the record store\<close>

text \<open>
  The interface \<^verbatim>\<open>ExpenseRecord\<close> of \<^verbatim>\<open>expense-types.ts\<close>, as a request body carries
  it: every field may be absent (\<open>None\<close>), which is what the handlers test for. The
  fields that a row of the table \<^verbatim>\<open>expenses\<close> shares with it are the parent record;
  \<open>expense_id\<close>, \<open>exp_type\<close> and \<open>exp_notes\<close> are the fields \<^verbatim>\<open>id\<close>, \<^verbatim>\<open>type\<close> and
  \<^verbatim>\<open>notes\<close>. A stored
  row has the key \<open>row_id\<close> the store gave it and the \<open>categoryId\<close>.
\<close>

record expense_fields =
  date :: "string option"
  exp_type :: "string option"
  description :: "string option"
  amount :: "rat option"
  paidBy :: "string option"
  subCategory :: "string option"
  source :: "string option"
  exp_notes :: "string option"

record ExpenseRecord = expense_fields +
  expense_id :: "string option"
  category :: "string option"

record expense_row = expense_fields +
  row_id :: nat
  categoryId :: nat

record category_row =
  cat_id :: nat
  cat_name :: "string option"
  subCategories :: "string option list"

datatype level = info | warn | error | debug

record log_entry =
  log_level :: level
  log_message :: string
  log_source :: string

text \<open>
  The state the handlers act on: the tables of the store, the keys it will give to the
  next rows, the console, and \<open>calls\<close>, the number of requests the store has received.
  The store is an external service and each request may fail: a fault plan tells, for
  the \<open>k\<close>-th request, whether it does.
\<close>

record state =
  categories :: "category_row list"
  expenses :: "expense_row list"
  error_logs :: "log_entry list"
  category_seq :: nat
  expense_seq :: nat
  calls :: nat
  console :: "console_entry list"

type_synonym fault_plan = "nat \<Rightarrow> bool"

definition of_str :: "string option \<Rightarrow> jsval" where
  "of_str x = (case x of None \<Rightarrow> JUndefined | Some s \<Rightarrow> JStr s)"

definition of_num :: "rat option \<Rightarrow> jsval" where
  "of_num x = (case x of None \<Rightarrow> JUndefined | Some n \<Rightarrow> JNum n)"

text \<open>An optional string inside a template string or a filter: \<^verbatim>\<open>`${x}`\<close>.\<close>

definition str :: "string option \<Rightarrow> string" where
  "str x = (case x of None \<Rightarrow> ''undefined'' | Some s \<Rightarrow> s)"

text \<open>\<^verbatim>\<open>x || null\<close> on an optional string.\<close>

definition or_null :: "string option \<Rightarrow> string option" where
  "or_null x = (if truthy (of_str x) then x else None)"

text \<open>\<^verbatim>\<open>n.toString()\<close> of a key: its decimal digits.\<close>

fun toString_nat :: "nat \<Rightarrow> string" where
  "toString_nat n =
     (if n < 10 then [''0123456789'' ! n]
      else toString_nat (n div 10) @ [''0123456789'' ! (n mod 10)])"

declare toString_nat.simps [simp del]

definition console_write :: "console_entry \<Rightarrow> state \<Rightarrow> state" where
  "console_write entry s = s\<lparr>console := console s @ [entry]\<rparr>"

subsection \<open>The requests to the store\<close>

text \<open>
  \<^verbatim>\<open>from('categories').select('id').eq('name', v).single()\<close>: the id of the one row
  whose name is the text of the filter; an error (\<open>None\<close>) when the request fails, or,
  by \<^verbatim>\<open>single()\<close>, when no row or more than one row matches. A row without a name
  matches no filter.
\<close>

definition select_category :: "fault_plan \<Rightarrow> string option \<Rightarrow> state \<Rightarrow> nat option \<times> state" where
  "select_category F v s =
     (let s' = s\<lparr>calls := Suc (calls s)\<rparr>
      in if F (calls s) then (None, s')
         else (case filter (\<lambda>r. cat_name r = Some (str v)) (categories s) of
                 [r] \<Rightarrow> (Some (cat_id r), s')
               | _ \<Rightarrow> (None, s')))"

text \<open>
  \<^verbatim>\<open>from('categories').insert([{name, subCategories}]).select('id').single()\<close>: the
  id of the new row, or an error (\<open>None\<close>) and no row.
\<close>

definition insert_category ::
  "fault_plan \<Rightarrow> string option \<Rightarrow> string option list \<Rightarrow> state \<Rightarrow> nat option \<times> state" where
  "insert_category F nm subs s =
     (if F (calls s) then (None, s\<lparr>calls := Suc (calls s)\<rparr>)
      else (Some (category_seq s),
            s\<lparr>categories := categories s
                  @ [\<lparr>cat_id = category_seq s, cat_name = nm, subCategories = subs\<rparr>],
              category_seq := Suc (category_seq s),
              calls := Suc (calls s)\<rparr>))"

text \<open>\<^verbatim>\<open>from('expenses').insert([expenseData]).select()\<close>: the stored row, or an error.\<close>

definition insert_expense ::
  "fault_plan \<Rightarrow> ExpenseRecord \<Rightarrow> nat \<Rightarrow> state \<Rightarrow> expense_row option \<times> state" where
  "insert_expense F expense cid s =
     (if F (calls s) then (None, s\<lparr>calls := Suc (calls s)\<rparr>)
      else (let row = \<lparr>date = date expense, exp_type = exp_type expense,
                        description = description expense, amount = amount expense,
                        paidBy = paidBy expense,
                        subCategory = or_null (subCategory expense),
                        source = or_null (source expense),
                        exp_notes = or_null (exp_notes expense),
                        row_id = expense_seq s, categoryId = cid\<rparr>
            in (Some row,
                s\<lparr>expenses := expenses s @ [row],
                  expense_seq := Suc (expense_seq s),
                  calls := Suc (calls s)\<rparr>)))"

text \<open>
  \<^verbatim>\<open>from('expenses').delete().in('id', numericIds)\<close>: \<open>True\<close> when the store reports an
  error.
\<close>

definition delete_expenses :: "fault_plan \<Rightarrow> int list \<Rightarrow> state \<Rightarrow> bool \<times> state" where
  "delete_expenses F numericIds s =
     (if F (calls s) then (True, s\<lparr>calls := Suc (calls s)\<rparr>)
      else (False,
            s\<lparr>expenses := filter (\<lambda>r. int (row_id r) \<notin> set numericIds) (expenses s),
              calls := Suc (calls s)\<rparr>))"

subsection \<open>The error logger\<close>

text \<open>
  \<^verbatim>\<open>ErrorLogger.log\<close>: one insert into \<^verbatim>\<open>error_logs\<close>; when it fails, the entry goes
  to the console (\<^verbatim>\<open>consoleLog\<close>). It never throws. Timestamps and the \<^verbatim>\<open>details\<close>
  payload are left out of the entries.
\<close>

definition consoleLog :: "level \<Rightarrow> string \<Rightarrow> string \<Rightarrow> console_entry" where
  "consoleLog lvl msg src =
     (case lvl of
        error \<Rightarrow> ConsoleError (''[ERROR] ['' @ src @ ''] '' @ msg)
      | warn \<Rightarrow> ConsoleWarn (''[WARN] ['' @ src @ ''] '' @ msg)
      | debug \<Rightarrow> ConsoleDebug (''[DEBUG] ['' @ src @ ''] '' @ msg)
      | info \<Rightarrow> ConsoleLog (''[INFO] ['' @ src @ ''] '' @ msg))"

definition logger_log :: "fault_plan \<Rightarrow> level \<Rightarrow> string \<Rightarrow> string \<Rightarrow> state \<Rightarrow> state" where
  "logger_log F lvl msg src s =
     (if F (calls s)
      then s\<lparr>calls := Suc (calls s),
             console := console s
               @ [ConsoleError ''Failed to log to Supabase, using console fallback:'',
                  consoleLog lvl msg src]\<rparr>
      else s\<lparr>error_logs := error_logs s
               @ [\<lparr>log_level = lvl, log_message = msg, log_source = src\<rparr>],
             calls := Suc (calls s)\<rparr>)"

subsection \<open>Ingestion of one expense\<close>

datatype thrown = createError | insertError

text \<open>
  The category block of \<^verbatim>\<open>insertExpense\<close>: look the category up by name; on any
  error of the lookup, log it and insert a category row with
  \<^verbatim>\<open>subCategories: subCatgrs || ["General"]\<close>, where \<^verbatim>\<open>subCatgrs\<close> is the array
  \<^verbatim>\<open>[expense.subCategory]\<close>. An array is truthy, so the alternative is never taken.
\<close>

definition resolveCategory :: "fault_plan \<Rightarrow> ExpenseRecord \<Rightarrow> state \<Rightarrow> (thrown + nat) \<times> state" where
  "resolveCategory F expense s =
     (case select_category F (category expense) s of
        (None, s1) \<Rightarrow>
          (let s2 = logger_log F error (''Error fetching category for '' @ str (category expense))
                      ''expenses.insertExpense'' s1;
               subCatgrs = [subCategory expense]
           in case insert_category F (category expense) subCatgrs s2 of
                (None, s3) \<Rightarrow>
                  (Inl createError,
                   logger_log F error (''Error creating category '' @ str (category expense))
                     ''expenses.insertExpense'' s3)
              | (Some newId, s3) \<Rightarrow>
                  (Inr newId,
                   logger_log F info
                     (''Created new category: '' @ str (category expense) @ '' with ID: ''
                        @ toString_nat newId)
                     ''expenses.insertExpense'' s3))
      | (Some foundId, s1) \<Rightarrow>
          (Inr foundId,
           logger_log F info
             (''Found category '' @ str (category expense) @ '' with ID: '' @ toString_nat foundId)
             ''expenses.insertExpense'' s1))"

text \<open>
  \<^verbatim>\<open>insertExpense\<close>: an error thrown inside is written to the console and thrown
  again (\<open>Inl\<close>); otherwise the stored row is returned.
\<close>

definition insertExpense :: "fault_plan \<Rightarrow> ExpenseRecord \<Rightarrow> state \<Rightarrow> (thrown + expense_row) \<times> state" where
  "insertExpense F expense s =
     (case resolveCategory F expense (console_write (ConsoleLog ''Attempting to insert expense:'') s) of
        (Inl e, s1) \<Rightarrow> (Inl e, console_write (ConsoleError ''Error inserting expense:'') s1)
      | (Inr cid, s1) \<Rightarrow>
          (let s2 = logger_log F info ''Inserting expense data'' ''expenses.insertExpense'' s1
           in case insert_expense F expense cid s2 of
                (None, s3) \<Rightarrow>
                  (Inl insertError,
                   console_write (ConsoleError ''Error inserting expense:'')
                     (logger_log F error ''Supabase insert error for expense''
                        ''expenses.insertExpense'' s3))
              | (Some row, s3) \<Rightarrow>
                  (Inr row, console_write (ConsoleLog ''Successfully inserted expense:'') s3)))"

subsection \<open>The handlers\<close>

datatype body =
    ErrorBody string
  | ExpenseBody ExpenseRecord
  | ImportBody (message: string) (successCount: nat) (totalCount: nat)
      (errors: "string list option")
  | DeleteBody (message: string) (deletedCount: nat)

record response =
  status :: nat
  body :: body

text \<open>\<^verbatim>\<open>POST /api/expenses\<close>. The body is the expense.\<close>

definition addExpense :: "fault_plan \<Rightarrow> ExpenseRecord \<Rightarrow> state \<Rightarrow> response \<times> state" where
  "addExpense F newExpense s =
     (if \<not> truthy (of_str (description newExpense)) \<or> \<not> truthy (of_num (amount newExpense))
         \<or> \<not> truthy (of_str (category newExpense))
      then (\<lparr>status = 400, body = ErrorBody ''Missing required fields''\<rparr>, s)
      else (case insertExpense F newExpense s of
              (Inr insertedExpense, s1) \<Rightarrow>
                (\<lparr>status = 201,
                  body = ExpenseBody
                    \<lparr>date = date insertedExpense, exp_type = exp_type insertedExpense,
                     description = description insertedExpense,
                     amount = amount insertedExpense, paidBy = paidBy insertedExpense,
                     subCategory = subCategory insertedExpense,
                     source = source insertedExpense, exp_notes = exp_notes insertedExpense,
                     expense_id = Some (toString_nat (row_id insertedExpense)),
                     category = category newExpense\<rparr>\<rparr>, s1)
            | (Inl e, s1) \<Rightarrow>
                (\<lparr>status = 500, body = ErrorBody ''Failed to add expense''\<rparr>,
                 console_write (ConsoleError ''Error adding expense:'') s1)))"

text \<open>
  \<^verbatim>\<open>POST /api/expenses/import\<close>. The body is \<open>None\<close> when it is not an array. The
  loop calls \<^verbatim>\<open>insertExpense\<close> on each element and catches what it throws.
\<close>

fun importLoop ::
  "fault_plan \<Rightarrow> ExpenseRecord list \<Rightarrow> nat \<times> string list \<times> state \<Rightarrow> nat \<times> string list \<times> state" where
  "importLoop F [] acc = acc"
| "importLoop F (expense # rest) (successes, errs, s) =
     (case insertExpense F expense s of
        (Inr row, s1) \<Rightarrow> importLoop F rest (successes + 1, errs, s1)
      | (Inl e, s1) \<Rightarrow>
          importLoop F rest
            (successes,
             errs @ [''Failed to import: '' @ str (description expense)],
             console_write (ConsoleError (''Error importing expense: ''
               @ str (description expense) @ '':'')) s1))"

definition importExpenses :: "fault_plan \<Rightarrow> ExpenseRecord list option \<Rightarrow> state \<Rightarrow> response \<times> state" where
  "importExpenses F importedExpenses s =
     (case importedExpenses of
        None \<Rightarrow> (\<lparr>status = 400, body = ErrorBody ''Expected array of expenses''\<rparr>, s)
      | Some xs \<Rightarrow>
          (case importLoop F xs (0, [], s) of
             (successes, errs, s1) \<Rightarrow>
               (\<lparr>status = 200,
                 body = (if length errs > 0
                         then ImportBody
                                (''Import completed with '' @ toString_nat (length errs) @ '' errors'')
                                successes (length xs) (Some errs)
                         else ImportBody ''Import completed'' successes (length xs) None)\<rparr>,
                s1)))"

text \<open>
  \<^verbatim>\<open>parseInt(s)\<close> is JavaScript's, a parameter \<open>parseInt\<close> of the handler below;
  \<open>None\<close> is \<^verbatim>\<open>NaN\<close>. \<open>parseInt_ascii\<close> is that function on ASCII strings whose
  value is below \<open>2^53\<close>: leading white space and a sign are skipped, a prefix
  \<^verbatim>\<open>0x\<close> selects base 16, and the longest run of digits is read; there is no value
  when there is no digit.
\<close>

definition is_space :: "char \<Rightarrow> bool" where
  "is_space c = (c \<in> set [CHR 0x09, CHR 0x0A, CHR 0x0B, CHR 0x0C, CHR 0x0D, CHR '' ''])"

definition digit_value :: "nat \<Rightarrow> char \<Rightarrow> nat option" where
  "digit_value radix c =
     (case map_of (zip ''0123456789abcdef'' [0, 1, 2, 3, 4, 5, 6, 7, 8, 9, 10, 11, 12, 13, 14, 15]
                   @ zip ''ABCDEF'' [10, 11, 12, 13, 14, 15]) c of
        None \<Rightarrow> None
      | Some d \<Rightarrow> if d < radix then Some d else None)"

definition parseInt_ascii :: "string \<Rightarrow> int option" where
  "parseInt_ascii inputString =
     (let s1 = dropWhile is_space inputString;
          (sign, s2) = (case s1 of
                          c # r \<Rightarrow> if c = CHR ''-'' then (- 1, r)
                                   else if c = CHR ''+'' then (1, r) else (1, s1)
                        | [] \<Rightarrow> (1, s1));
          (radix, s3) = (case s2 of
                           c # x # r \<Rightarrow> if c = CHR ''0'' \<and> (x = CHR ''x'' \<or> x = CHR ''X'')
                                        then (16, r) else (10, s2)
                         | _ \<Rightarrow> (10, s2));
          z = takeWhile (\<lambda>c. digit_value radix c \<noteq> None) s3
      in if z = [] then None
         else Some (sign * int (foldl (\<lambda>acc c. acc * radix
                      + (case digit_value radix c of None \<Rightarrow> 0 | Some d \<Rightarrow> d)) 0 z)))"

text \<open>
  \<^verbatim>\<open>POST /api/expenses/bulk-delete\<close>. \<open>ids\<close> is \<open>None\<close> when the body's \<^verbatim>\<open>ids\<close> is
  not an array.
\<close>

definition numericIds :: "(string \<Rightarrow> int option) \<Rightarrow> string list \<Rightarrow> int list" where
  "numericIds parseInt ids = map the (filter (\<lambda>v. v \<noteq> None) (map parseInt ids))"

definition bulkDeleteExpenses ::
  "(string \<Rightarrow> int option) \<Rightarrow> fault_plan \<Rightarrow> string list option \<Rightarrow> state \<Rightarrow> response \<times> state" where
  "bulkDeleteExpenses parseInt F ids s =
     (case ids of
        None \<Rightarrow> (\<lparr>status = 400, body = ErrorBody ''Expected array of IDs''\<rparr>, s)
      | Some xs \<Rightarrow>
          (if length (numericIds parseInt xs) = 0
           then (\<lparr>status = 400, body = ErrorBody ''No valid IDs provided''\<rparr>, s)
           else (case delete_expenses F (numericIds parseInt xs) s of
                   (True, s1) \<Rightarrow>
                     (\<lparr>status = 500, body = ErrorBody ''Failed to delete expenses''\<rparr>,
                      console_write (ConsoleError ''Supabase bulk delete error:'') s1)
                 | (False, s1) \<Rightarrow>
                     (\<lparr>status = 200,
                       body = DeleteBody ''Expenses deleted successfully''
                                (length (numericIds parseInt xs))\<rparr>, s1))))"

subsection \<open>Sample data\<close>

text \<open>A store with no rows, a complete expense, and the plan under which no request fails.\<close>

abbreviation empty_store :: state where
  "empty_store \<equiv> \<lparr>categories = [], expenses = [], error_logs = [], category_seq = 1,
                    expense_seq = 1, calls = 0, console = []\<rparr>"

abbreviation hay :: ExpenseRecord where
  "hay \<equiv> \<lparr>date = Some ''2024-01-05'', exp_type = Some ''Expense'', description = Some ''Hay'',
           amount = Some 120, paidBy = Some ''Asha'', subCategory = Some ''Fodder'',
           source = Some ''Cash'', exp_notes = None, expense_id = None,
           category = Some ''Feed''\<rparr>"

abbreviation no_faults :: fault_plan where
  "no_faults \<equiv> (\<lambda>k. False)"
section \<open>Properties of the summary\<close>

subsection \<open>The insertion sort conforms\<close>

lemma sgn_le_0_iff_int: "sgn (u::int) = sgn v \<Longrightarrow> (u \<le> 0 \<longleftrightarrow> v \<le> 0)"
  by (auto simp: sgn_if split: if_splits)

lemma insert_by_insort_key:
  assumes "\<forall>y\<in>set ys. sgn (sortCompare (comparefn x y)) = sgn (key x - key y)"
  shows "insert_by comparefn x ys = insort_key key x ys"
  using assms
proof (induction ys)
  case Nil
  then show ?case by simp
next
  case (Cons y ys)
  have "sortCompare (comparefn x y) \<le> 0 \<longleftrightarrow> key x - key y \<le> 0"
    using Cons.prems by (intro sgn_le_0_iff_int) simp
  then show ?case using Cons by simp
qed

lemma conforming_insertionSort: "conforming insertionSort"
  unfolding conforming_def
proof (intro allI impI)
  fix comparefn :: "'a \<Rightarrow> 'a \<Rightarrow> int option" and key :: "'a \<Rightarrow> int" and xs :: "'a list"
  assume "\<forall>a\<in>set xs. \<forall>b\<in>set xs. sgn (sortCompare (comparefn a b)) = sgn (key a - key b)"
  then show "insertionSort comparefn xs = sort_key key xs"
  proof (induction xs)
    case Nil
    then show ?case by (simp add: insertionSort_def)
  next
    case (Cons x xs)
    then have IH: "insertionSort comparefn xs = sort_key key xs" by simp
    have "\<forall>y\<in>set (sort_key key xs). sgn (sortCompare (comparefn x y)) = sgn (key x - key y)"
      using Cons.prems by simp
    then have "insert_by comparefn x (sort_key key xs) = insort_key key x (sort_key key xs)"
      by (rule insert_by_insort_key)
    then show ?case using IH by (simp add: insertionSort_def)
  qed
qed

subsection \<open>Whole numbers are added exactly\<close>

lemma pow2_nonneg: "0 \<le> e \<Longrightarrow> pow2 e = 2 ^ nat e"
  by (simp add: pow2_def)

lemma round_even_of_int: "round_even (of_int k) = k"
  by (simp add: round_even_def)

lemma floor_log2_of_int:
  assumes "0 < n"
  shows "floor_log2 (of_int n) = bitlen n - 1"
proof -
  have b: "2 ^ nat (bitlen n - 1) \<le> n" using bitlen_bounds[OF assms] by simp
  have ge: "1 \<le> bitlen n" using assms bitlen_eq_zero_iff[of n] bitlen_nonneg[of n] by linarith
  have "(2::rat) ^ nat (bitlen n - 1) \<le> of_int n"
  proof -
    have "(of_int (2 ^ nat (bitlen n - 1)) :: rat) \<le> of_int n" using b by (simp only: of_int_le_iff)
    then show ?thesis by simp
  qed
  then have "pow2 (bitlen n - 1) \<le> of_int n" using ge by (simp add: pow2_nonneg)
  moreover have "bitlen 1 = 1" by (simp add: bitlen_alt_def)
  ultimately show ?thesis by (simp add: floor_log2_def)
qed

lemma bitlen_le_54:
  assumes "0 < n" "n \<le> 2 ^ 53"
  shows "bitlen n - 1 \<le> 53"
proof -
  have "(2::int) ^ nat (bitlen n - 1) \<le> 2 ^ 53" using bitlen_bounds[OF assms(1)] assms(2) by linarith
  then have "nat (bitlen n - 1) \<le> 53" by (rule power_le_imp_le_exp[rotated]) simp
  then show ?thesis by linarith
qed

lemma round_double_pos_int:
  assumes "0 < n" "n \<le> 2 ^ 53"
  shows "round_double (of_int n) = Finite (of_int n)"
proof -
  define e where "e = bitlen n - 1"
  have e0: "0 \<le> e" using assms(1) bitlen_eq_zero_iff[of n] bitlen_nonneg[of n] by (simp add: e_def)
  have e53: "e \<le> 53" using bitlen_le_54[OF assms] by (simp add: e_def)
  have fl: "floor_log2 (of_int n) = e" using assms(1) floor_log2_of_int[of n] by (simp add: e_def)
  have mx: "max e (- 1022) = e" using e0 by simp
  have lt: "(of_int n :: rat) < pow2 1024"
  proof -
    have "n < 2 ^ 1024" using assms(2) by (rule le_less_trans) simp
    then have "(of_int n :: rat) < of_int (2 ^ 1024)" by (simp only: of_int_less_iff)
    then show ?thesis by (simp add: pow2_def)
  qed
  have r: "of_int (round_even (of_int n / pow2 (e - 52))) * pow2 (e - 52) = (of_int n :: rat)"
  proof (cases "e \<le> 52")
    case True
    then have p: "pow2 (e - 52) = 1 / 2 ^ nat (52 - e)"
      by (cases "e = 52") (simp_all add: pow2_def)
    have q: "(of_int n :: rat) / pow2 (e - 52) = of_int (n * 2 ^ nat (52 - e))"
      by (simp add: p)
    have "round_even (of_int n / pow2 (e - 52)) = n * 2 ^ nat (52 - e)"
      unfolding q by (rule round_even_of_int)
    then show ?thesis by (simp add: p)
  next
    case False
    then have e: "e = 53" using e53 by simp
    have "2 ^ 53 \<le> n" using bitlen_bounds[OF assms(1)] e by (simp add: e_def)
    then have n: "n = 2 ^ 53" using assms(2) by simp
    have q: "(of_int n :: rat) / pow2 (e - 52) = of_int (2 ^ 52)"
      by (simp add: e n pow2_def)
    have "round_even (of_int n / pow2 (e - 52)) = 2 ^ 52"
      unfolding q by (rule round_even_of_int)
    then show ?thesis by (simp add: e n pow2_def)
  qed
  have "(of_int n :: rat) \<noteq> 0" "(0::rat) < of_int n" "\<bar>of_int n :: rat\<bar> = of_int n"
    using assms(1) by simp_all
  then show ?thesis
    using lt unfolding round_double_def Let_def by (simp add: fl mx r)
qed

lemma round_double_int:
  assumes "\<bar>n\<bar> \<le> 2 ^ 53"
  shows "round_double (of_int n) = Finite (of_int n)"
proof (cases "n = 0")
  case True
  then show ?thesis by (simp add: round_double_def)
next
  case False
  then have p: "0 < \<bar>n\<bar>" by simp
  have m: "round_double (of_int \<bar>n\<bar>) = Finite (of_int \<bar>n\<bar>)"
    using round_double_pos_int[OF p assms] .
  show ?thesis
  proof (cases "0 < n")
    case True
    then show ?thesis using m by simp
  next
    case neg: False
    then have n: "n < 0" using False by simp
    have abs: "\<bar>of_int n :: rat\<bar> = of_int \<bar>n\<bar>" by simp
    have "round_double (of_int n) = Finite (- of_int \<bar>n\<bar>)"
      using m n unfolding round_double_def[of "of_int n"] round_double_def[of "of_int \<bar>n\<bar>"] abs
      by (simp add: Let_def split: if_splits)
    then show ?thesis using n by simp
  qed
qed



subsection \<open>The financial totals\<close>

lemma round_double_numeral:
  "numeral k \<le> (2::int) ^ 53 \<Longrightarrow> round_double (numeral k) = Finite (numeral k)"
  using round_double_int[of "numeral k"] by simp

lemma or_zero_cases:
  "or_zero x = (case x of None \<Rightarrow> Finite 0 | Some NaN \<Rightarrow> Finite 0 | Some v \<Rightarrow> v)"
  by (simp add: or_zero_def split: option.splits double.splits)










subsection \<open>The latest weight and the average\<close>

lemma sort_key_Nil_iff: "sort_key f xs = [] \<longleftrightarrow> xs = []"
  using length_sort[of f xs] by (metis length_0_conv)

lemma hd_sort_key_least:
  assumes "xs \<noteq> []"
  shows "hd (sort_key f xs) \<in> set xs \<and> (\<forall>x\<in>set xs. f (hd (sort_key f xs)) \<le> f x)"
proof -
  obtain y ys where ys: "sort_key f xs = y # ys"
    using assms length_sort[of f xs] by (cases "sort_key f xs") auto
  have "sorted (map f (y # ys))" using sorted_sort_key[of f xs] ys by simp
  then have le: "\<forall>z\<in>set (y # ys). f y \<le> f z" by auto
  have "set (y # ys) = set xs" using set_sort[of f xs] ys by simp
  then show ?thesis using le ys by auto
qed

lemma conformingD:
  assumes "conforming jsSort"
      and "\<forall>a\<in>set xs. \<forall>b\<in>set xs. sgn (sortCompare (comparefn a b)) = sgn (key a - key b)"
  shows "jsSort comparefn xs = sort_key key xs"
  using assms by (simp add: conforming_def)

lemma conforming_Nil:
  assumes "conforming jsSort"
  shows "jsSort comparefn [] = []"
proof -
  have "jsSort comparefn [] = sort_key (\<lambda>x. 0) []"
    using conformingD[where jsSort = jsSort and xs = "[]" and comparefn = comparefn
        and key = "\<lambda>x. 0"] assms
    by simp
  then show ?thesis by simp
qed

lemma conforming_byDateDesc:
  assumes "conforming jsSort"
      and "\<forall>w\<in>set xs. getTime (w_date w) \<noteq> None"
  shows "jsSort (byDateDesc getTime) xs = sort_key (\<lambda>w. - time_of getTime w) xs"
proof -
  have "sgn (sortCompare (byDateDesc getTime a b))
        = sgn (- time_of getTime a - (- time_of getTime b))"
    if a: "a \<in> set xs" and b: "b \<in> set xs" for a b
  proof -
    obtain ta where "getTime (w_date a) = Some ta" using assms(2) a by auto
    moreover obtain tb where "getTime (w_date b) = Some tb" using assms(2) b by auto
    ultimately have "getTime (w_date a) = Some ta" "getTime (w_date b) = Some tb" by simp_all
    then show ?thesis by (simp add: byDateDesc_def sortCompare_def time_of_def)
  qed
  then have "\<forall>a\<in>set xs. \<forall>b\<in>set xs. sgn (sortCompare (byDateDesc getTime a b))
        = sgn (- time_of getTime a - (- time_of getTime b))"
    by simp
  then show ?thesis
    using conformingD[where jsSort = jsSort and xs = xs and comparefn = "byDateDesc getTime"
        and key = "\<lambda>w. - time_of getTime w"] assms(1)
    by simp
qed

lemma round_double_1: "round_double 1 = Finite 1"
  using round_double_int[of 1] by simp

text \<open>
  C7, amended. On an engine whose sort conforms: the weight an animal contributes is
  its \<open>currentWeight\<close> (or \<open>0\<close> when that is absent or \<^verbatim>\<open>NaN\<close>) if no weight record
  carries its id; and, provided the dates of all its weight records are dates, it is the
  weight of one of its own records whose time is the latest among them. \<open>averageWeight\<close>
  is the mean of the contributions that are greater than \<open>0\<close>, as JavaScript computes
  it (their sum in row order, divided by their number); the others are left out of both
  the sum and the count, and it is \<open>0\<close> when none is left.
\<close>

theorem getAnimalSummary_averageWeight:
  assumes "conforming jsSort"
  shows "((\<forall>w\<in>set weightRecords. animalId w \<noteq> a_id animal) \<longrightarrow>
      latestWeight jsSort getTime weightRecords animal
        = (case currentWeight animal of None \<Rightarrow> Finite 0 | Some NaN \<Rightarrow> Finite 0 | Some c \<Rightarrow> c))
   \<and> ((\<exists>w\<in>set weightRecords. animalId w = a_id animal)
       \<and> (\<forall>w\<in>set weightRecords. animalId w = a_id animal \<longrightarrow> getTime (w_date w) \<noteq> None) \<longrightarrow>
      (\<exists>r\<in>set weightRecords. animalId r = a_id animal
          \<and> (\<exists>t. getTime (w_date r) = Some t
                \<and> (\<forall>r'\<in>set weightRecords. animalId r' = a_id animal
                      \<longrightarrow> (\<exists>t'. getTime (w_date r') = Some t' \<and> t' \<le> t)))
          \<and> latestWeight jsSort getTime weightRecords animal = weight r))
   \<and> averageWeight (getAnimalSummary jsSort getTime animals weightRecords) =
       (let included = filter positive (map (latestWeight jsSort getTime weightRecords) animals)
        in if included = [] then Finite 0
           else ddiv (foldl dadd (Finite 0) included) (of_length (length included)))"
proof (intro conjI impI)
  assume none: "\<forall>w\<in>set weightRecords. animalId w \<noteq> a_id animal"
  then have "filter (\<lambda>w. animalId w = a_id animal) weightRecords = []"
    by (simp add: filter_empty_conv)
  then show "latestWeight jsSort getTime weightRecords animal
        = (case currentWeight animal of None \<Rightarrow> Finite 0 | Some NaN \<Rightarrow> Finite 0 | Some c \<Rightarrow> c)"
    using conforming_Nil[OF assms] by (simp add: latestWeight_def or_zero_cases)
next
  assume h: "(\<exists>w\<in>set weightRecords. animalId w = a_id animal)
       \<and> (\<forall>w\<in>set weightRecords. animalId w = a_id animal \<longrightarrow> getTime (w_date w) \<noteq> None)"
  define mine where "mine = filter (\<lambda>w. animalId w = a_id animal) weightRecords"
  define key where "key = (\<lambda>w. - time_of getTime w)"
  define r where "r = hd (sort_key key mine)"
  have ne: "mine \<noteq> []" using h by (auto simp: mine_def filter_empty_conv)
  have parse: "\<forall>w\<in>set mine. getTime (w_date w) \<noteq> None" using h by (simp add: mine_def)
  have sorted: "jsSort (byDateDesc getTime) mine = sort_key key mine"
    unfolding key_def using assms parse by (rule conforming_byDateDesc)
  have r: "r \<in> set mine" "\<forall>x\<in>set mine. key r \<le> key x"
    using hd_sort_key_least[OF ne, of key] by (simp_all add: r_def)
  have "sort_key key mine \<noteq> []" using ne sort_key_Nil_iff[of key mine] by simp
  then have lw: "latestWeight jsSort getTime weightRecords animal = weight r"
    by (simp add: latestWeight_def mine_def[symmetric] sorted r_def Let_def)
  obtain t where t: "getTime (w_date r) = Some t" using parse r(1) by auto
  have le: "\<exists>t'. getTime (w_date r') = Some t' \<and> t' \<le> t"
    if "r' \<in> set weightRecords" "animalId r' = a_id animal" for r'
  proof -
    have m: "r' \<in> set mine" using that by (simp add: mine_def)
    then obtain t' where t': "getTime (w_date r') = Some t'" using parse by auto
    have "key r \<le> key r'" using r(2) m by simp
    then have "t' \<le> t" using t t' by (simp add: key_def time_of_def)
    then show ?thesis using t' by simp
  qed
  have "r \<in> set weightRecords" "animalId r = a_id animal" using r(1) by (simp_all add: mine_def)
  then show "\<exists>r\<in>set weightRecords. animalId r = a_id animal
          \<and> (\<exists>t. getTime (w_date r) = Some t
                \<and> (\<forall>r'\<in>set weightRecords. animalId r' = a_id animal
                      \<longrightarrow> (\<exists>t'. getTime (w_date r') = Some t' \<and> t' \<le> t)))
          \<and> latestWeight jsSort getTime weightRecords animal = weight r"
    using t le lw by blast
next
  show "averageWeight (getAnimalSummary jsSort getTime animals weightRecords) =
       (let included = filter positive (map (latestWeight jsSort getTime weightRecords) animals)
        in if included = [] then Finite 0
           else ddiv (foldl dadd (Finite 0) included) (of_length (length included)))"
    by (simp add: getAnimalSummary_def Let_def)
qed

text \<open>
  An animal with two weight records (the later one counts, not its \<open>currentWeight\<close>),
  one with none and \<open>currentWeight = 45\<close>, and one with neither: the mean is taken over
  55 and 45. The times are those of the two dates in milliseconds.
\<close>

theorem getAnimalSummary_averageWeight_witness:
  "(let times = (\<lambda>s. if s = ''2024-01-01'' then Some 1704067200000
                     else if s = ''2024-02-01'' then Some 1706745600000 else None);
        records = [\<lparr>w_id = ''1'', animalId = ''7'', weight = Finite 50, w_date = ''2024-01-01''\<rparr>,
                   \<lparr>w_id = ''2'', animalId = ''7'', weight = Finite 55, w_date = ''2024-02-01''\<rparr>];
        weighed = \<lparr>a_id = ''7'', a_type = goat, a_gender = female, a_status = active,
                    currentWeight = Some (Finite 40), purchasePrice = None, salePrice = None\<rparr>;
        unweighed = \<lparr>a_id = ''8'', a_type = goat, a_gender = male, a_status = active,
                    currentWeight = Some (Finite 45), purchasePrice = None, salePrice = None\<rparr>;
        unknown = \<lparr>a_id = ''9'', a_type = sheep, a_gender = male, a_status = active,
                    currentWeight = None, purchasePrice = None, salePrice = None\<rparr>
    in conforming (insertionSort :: (WeightRecord \<Rightarrow> WeightRecord \<Rightarrow> int option)
                      \<Rightarrow> WeightRecord list \<Rightarrow> WeightRecord list)
     \<and> latestWeight insertionSort times records weighed = Finite 55
     \<and> latestWeight insertionSort times records unweighed = Finite 45
     \<and> latestWeight insertionSort times records unknown = Finite 0
     \<and> averageWeight (getAnimalSummary insertionSort times [weighed, unweighed, unknown] records)
         = Finite 50
     \<and> averageWeight (getAnimalSummary insertionSort times [unknown] records) = Finite 0)"
proof -
  let ?times = "\<lambda>s. if s = ''2024-01-01'' then Some (1704067200000::int)
                     else if s = ''2024-02-01'' then Some 1706745600000 else None"
  let ?records = "[\<lparr>w_id = ''1'', animalId = ''7'', weight = Finite 50, w_date = ''2024-01-01''\<rparr>,
                   \<lparr>w_id = ''2'', animalId = ''7'', weight = Finite 55, w_date = ''2024-02-01''\<rparr>]"
  let ?weighed = "\<lparr>a_id = ''7'', a_type = goat, a_gender = female, a_status = active,
                    currentWeight = Some (Finite 40), purchasePrice = None, salePrice = None\<rparr>"
  let ?unweighed = "\<lparr>a_id = ''8'', a_type = goat, a_gender = male, a_status = active,
                    currentWeight = Some (Finite 45), purchasePrice = None, salePrice = None\<rparr>"
  let ?unknown = "\<lparr>a_id = ''9'', a_type = sheep, a_gender = male, a_status = active,
                    currentWeight = None, purchasePrice = None, salePrice = None\<rparr>"
  note c = conforming_insertionSort[where ?'a = WeightRecord]
  have lw: "latestWeight insertionSort ?times ?records ?weighed = Finite 55"
    "latestWeight insertionSort ?times ?records ?unweighed = Finite 45"
    "latestWeight insertionSort ?times ?records ?unknown = Finite 0"
    by (simp_all add: latestWeight_def insertionSort_def byDateDesc_def sortCompare_def
          or_zero_def)
  have avg: "averageWeight (getAnimalSummary insertionSort ?times
        [?weighed, ?unweighed, ?unknown] ?records) = Finite 50"
    "averageWeight (getAnimalSummary insertionSort ?times [?unknown] ?records) = Finite 0"
    using getAnimalSummary_averageWeight[OF c, of ?records ?unweighed ?times
        "[?weighed, ?unweighed, ?unknown]"]
      getAnimalSummary_averageWeight[OF c, of ?records ?unweighed ?times "[?unknown]"]
    by (simp_all add: lw Let_def of_length_def round_double_numeral round_double_1)
  show ?thesis using c lw avg by (simp add: Let_def)
qed

text \<open>
  C7, as the claim states it, fails when a date is not a date. The animal has a record
  of 50 dated \<^verbatim>\<open>"unknown"\<close> and, after it in the array, a record of 60 dated
  2024-02-01. Every comparison with the first record is \<^verbatim>\<open>NaN\<close>, which the sort reads
  as equal; the records stay as they are and the first, not the dated one, is taken.
  The insertion sort stands for the engine here, and every conforming engine gives the
  same (\<open>latestWeight_unparsable_date\<close>).
\<close>

theorem getAnimalSummary_latest_weight_counterexample:
  "(let times = (\<lambda>s. if s = ''2024-02-01'' then Some 1706745600000 else None);
        records = [\<lparr>w_id = ''1'', animalId = ''7'', weight = Finite 50, w_date = ''unknown''\<rparr>,
                   \<lparr>w_id = ''2'', animalId = ''7'', weight = Finite 60, w_date = ''2024-02-01''\<rparr>];
        animal = \<lparr>a_id = ''7'', a_type = goat, a_gender = female, a_status = active,
                   currentWeight = None, purchasePrice = None, salePrice = None\<rparr>
    in times ''unknown'' = None
     \<and> latestWeight insertionSort times records animal = Finite 50
     \<and> latestWeight insertionSort times records animal \<noteq> Finite 60
     \<and> averageWeight (getAnimalSummary insertionSort times [animal] records) = Finite 50)"
  by (simp add: latestWeight_def getAnimalSummary_def insertionSort_def byDateDesc_def
        sortCompare_def Let_def of_length_def round_double_numeral round_double_1)

lemma latestWeight_unparsable_date:
  assumes "conforming jsSort"
  shows "latestWeight jsSort (\<lambda>s. if s = ''2024-02-01'' then Some 1706745600000 else None)
           [\<lparr>w_id = ''1'', animalId = ''7'', weight = Finite 50, w_date = ''unknown''\<rparr>,
            \<lparr>w_id = ''2'', animalId = ''7'', weight = Finite 60, w_date = ''2024-02-01''\<rparr>]
           \<lparr>a_id = ''7'', a_type = goat, a_gender = female, a_status = active,
              currentWeight = None, purchasePrice = None, salePrice = None\<rparr>
         = Finite 50"
proof -
  let ?times = "\<lambda>s. if s = ''2024-02-01'' then Some (1706745600000::int) else None"
  let ?records = "[\<lparr>w_id = ''1'', animalId = ''7'', weight = Finite 50, w_date = ''unknown''\<rparr>,
            \<lparr>w_id = ''2'', animalId = ''7'', weight = Finite 60, w_date = ''2024-02-01''\<rparr>]"
  have "jsSort (byDateDesc ?times) ?records = sort_key (\<lambda>w. 0::int) ?records"
    by (rule conformingD[where key = "\<lambda>w. 0", OF assms])
      (simp add: byDateDesc_def sortCompare_def)
  then show ?thesis by (simp add: latestWeight_def)
qed

subsection \<open>Sums of decimals round\<close>

text \<open>
  The doubles nearest to 0.2 and 0.1 add up to 0.30000000000000004, which is not the
  double nearest to 0.3.
\<close>

lemma tenths:
  "round_double (2 / 10) = Finite (3602879701896397 / 18014398509481984)"
  "round_double (1 / 10) = Finite (3602879701896397 / 36028797018963968)"
  "round_double (3 / 10) = Finite (5404319552844595 / 18014398509481984)"
  "dadd (Finite (3602879701896397 / 18014398509481984))
        (Finite (3602879701896397 / 36028797018963968))
     = Finite (1351079888211149 / 4503599627370496)"
  by code_simp+

section \<open>Properties of the expense reader\<close>

lemma isoDatePattern_examples:
  "isoDatePattern ''2024-01-05'' \<and> \<not> isoDatePattern ''1/5/2024'' \<and> \<not> isoDatePattern ''not-a-date''"
  by (simp add: isoDatePattern_def is_digit_def eval_nat_numeral)

lemma formatDate_isoDate:
  "isoDatePattern s \<Longrightarrow> formatDate toString today (JStr s) = (s, [])"
  by (cases s) (auto simp: formatDate_def isoDatePattern_def eval_nat_numeral)

lemma formatDate_examples:
  "formatDate toString today (JStr ''2024-01-05'') = (''2024-01-05'', [])
   \<and> formatDate toString today (JStr ''1/5/2024'') = (''2024-01-05'', [])"
  by (simp add: formatDate_def isoDatePattern_def is_digit_def eval_nat_numeral padStart_def)

text \<open>
  C2. A date string that matches the pattern is kept and one of three slash-separated
  parts is rearranged (\<open>formatDate_isoDate\<close>, \<open>formatDate_examples\<close>); any other string
  is replaced by the current date and the record is still returned. But on a string the
  reader never writes to the console: the only \<^verbatim>\<open>console.warn\<close> stands in the
  \<^verbatim>\<open>catch\<close> block, which no string reaches. For \<^verbatim>\<open>"not-a-date"\<close> the date is
  the current one and the console output is empty.
\<close>

theorem formatDate_string_never_warns:
  "snd (formatDate toString today (JStr s)) = []
   \<and> formatDate toString today (JStr ''not-a-date'') = (today, [])
   \<and> map (\<lambda>r. r ''date'')
        (fst (readExpenses toString parseFloat today (Some [[''date'' \<mapsto> JStr ''not-a-date'']]) False))
       = [Some (JStr today)]
   \<and> snd (readExpenses toString parseFloat today (Some [[''date'' \<mapsto> JStr ''not-a-date'']]) False)
       = []"
proof (intro conjI)
  show "snd (formatDate toString today (JStr s)) = []"
    by (simp add: formatDate_def split: list.splits)
  show nad: "formatDate toString today (JStr ''not-a-date'') = (today, [])"
    by (simp add: formatDate_def isoDatePattern_def is_digit_def eval_nat_numeral)
  show "map (\<lambda>r. r ''date'')
        (fst (readExpenses toString parseFloat today (Some [[''date'' \<mapsto> JStr ''not-a-date'']]) False))
       = [Some (JStr today)]"
    by (simp add: readExpenses_def transformExpense_def or_js_def get_def nad)
  show "snd (readExpenses toString parseFloat today (Some [[''date'' \<mapsto> JStr ''not-a-date'']]) False)
       = []"
    by (simp add: readExpenses_def transformExpense_def or_js_def get_def nad)
qed

lemma or_js_chain:
  "(truthy a \<longrightarrow> or_js a (or_js b d) = a)
   \<and> (\<not> truthy a \<and> truthy b \<longrightarrow> or_js a (or_js b d) = b)"
  by (simp add: or_js_def)

lemma transformExpense_fields:
  "fst (transformExpense toString parseFloat today item index) =
     map_of
           [(''id'', JStr (toString (or_js (get item ''id'') (JNum (of_nat index + 1))))),
            (''date'', JStr (fst (formatDate toString today
                (or_js (get item ''Date'') (get item ''date''))))),
            (''type'', or_js (get item ''Type'') (or_js (get item ''type'') (JStr ''Expense''))),
            (''description'', or_js (get item ''Description'')
                (or_js (get item ''description'') (JStr ''No description''))),
            (''amount'', parseFloat (or_js (get item ''Amount'')
                (or_js (get item ''amount'') (JNum 0)))),
            (''paidBy'', or_js (get item ''Paid By'')
                (or_js (get item ''paidBy'') (JStr ''Unknown''))),
            (''category'', or_js (get item ''Category'')
                (or_js (get item ''category'') (JStr ''Other''))),
            (''subCategory'', or_js (get item ''Sub-Category'')
                (or_js (get item ''subCategory'') (JStr ''General''))),
            (''source'', or_js (get item ''Source'')
                (or_js (get item ''source'') (JStr ''Unknown''))),
            (''notes'', or_js (get item ''Notes'') (or_js (get item ''notes'') (JStr [])))]"
  unfolding transformExpense_def Let_def by (simp split: prod.splits)

text \<open>
  C3, as the claim states it, fails: of a row that has both \<^verbatim>\<open>"Paid By"\<close> and
  \<^verbatim>\<open>paidBy\<close> the reader returns the value under the capitalized label.
\<close>

theorem transformExpense_prefers_camelCase_counterexample:
  "fst (transformExpense (\<lambda>v. []) (\<lambda>v. v) ''2024-06-01''
          [''Paid By'' \<mapsto> JStr ''Alice'', ''paidBy'' \<mapsto> JStr ''Bob''] 0) ''paidBy''
     = Some (JStr ''Alice'')
   \<and> fst (transformExpense (\<lambda>v. []) (\<lambda>v. v) ''2024-06-01''
          [''Paid By'' \<mapsto> JStr ''Alice'', ''paidBy'' \<mapsto> JStr ''Bob''] 0) ''paidBy''
     \<noteq> Some (JStr ''Bob'')"
  by (simp add: transformExpense_def or_js_def get_def split: prod.splits)

text \<open>
  C3, amended. For every aliased field the reader takes the value under the capitalized
  label whenever that value is truthy (present, not empty, not zero), and the value
  under the camelCase key only when the label's value is absent or falsy and its own is
  truthy. The amount passes through \<^verbatim>\<open>parseFloat\<close> and the date through the date
  block.
\<close>

theorem transformExpense_prefers_label:
  assumes "(key, label, camel) \<in> set
      [(''type'', ''Type'', ''type''), (''description'', ''Description'', ''description''),
       (''paidBy'', ''Paid By'', ''paidBy''), (''category'', ''Category'', ''category''),
       (''subCategory'', ''Sub-Category'', ''subCategory''), (''source'', ''Source'', ''source''),
       (''notes'', ''Notes'', ''notes'')]"
  shows "(truthy (get item label) \<longrightarrow>
            fst (transformExpense toString parseFloat today item index) key
              = Some (get item label))
       \<and> (\<not> truthy (get item label) \<and> truthy (get item camel) \<longrightarrow>
            fst (transformExpense toString parseFloat today item index) key
              = Some (get item camel))
       \<and> (truthy (get item ''Amount'') \<longrightarrow>
            fst (transformExpense toString parseFloat today item index) ''amount''
              = Some (parseFloat (get item ''Amount'')))
       \<and> (\<not> truthy (get item ''Amount'') \<and> truthy (get item ''amount'') \<longrightarrow>
            fst (transformExpense toString parseFloat today item index) ''amount''
              = Some (parseFloat (get item ''amount'')))
       \<and> (truthy (get item ''Date'') \<longrightarrow>
            fst (transformExpense toString parseFloat today item index) ''date''
              = Some (JStr (fst (formatDate toString today (get item ''Date'')))))
       \<and> (\<not> truthy (get item ''Date'') \<longrightarrow>
            fst (transformExpense toString parseFloat today item index) ''date''
              = Some (JStr (fst (formatDate toString today (get item ''date'')))))"
proof -
  let ?out = "fst (transformExpense toString parseFloat today item index)"
  have amount: "truthy (get item ''Amount'') \<longrightarrow>
      ?out ''amount'' = Some (parseFloat (get item ''Amount''))"
    by (simp add: transformExpense_fields or_js_def)
  have amount': "\<not> truthy (get item ''Amount'') \<and> truthy (get item ''amount'') \<longrightarrow>
      ?out ''amount'' = Some (parseFloat (get item ''amount''))"
    by (simp add: transformExpense_fields or_js_def)
  have date: "truthy (get item ''Date'') \<longrightarrow>
      ?out ''date'' = Some (JStr (fst (formatDate toString today (get item ''Date''))))"
    by (simp add: transformExpense_fields or_js_def)
  have date': "\<not> truthy (get item ''Date'') \<longrightarrow>
      ?out ''date'' = Some (JStr (fst (formatDate toString today (get item ''date''))))"
    by (simp add: transformExpense_fields or_js_def)
  obtain d where "?out key = Some (or_js (get item label) (or_js (get item camel) d))"
    using assms unfolding set_simps insert_iff empty_iff prod.inject
    by (elim disjE conjE) (simp_all add: transformExpense_fields)
  then show ?thesis
    using amount amount' date date' or_js_chain[of "get item label" "get item camel" d]
    by simp
qed

theorem transformExpense_prefers_label_witness:
  "fst (transformExpense (\<lambda>v. []) (\<lambda>v. v) ''2024-06-01''
          [''Sub-Category'' \<mapsto> JStr ''Feed'', ''subCategory'' \<mapsto> JStr ''Fodder'',
           ''Amount'' \<mapsto> JNum 12, ''amount'' \<mapsto> JNum 15,
           ''Date'' \<mapsto> JStr ''1/5/2024'', ''date'' \<mapsto> JStr ''2023-12-31''] 0) ''subCategory''
     = Some (JStr ''Feed'')
   \<and> fst (transformExpense (\<lambda>v. []) (\<lambda>v. v) ''2024-06-01''
          [''Sub-Category'' \<mapsto> JStr ''Feed'', ''subCategory'' \<mapsto> JStr ''Fodder'',
           ''Amount'' \<mapsto> JNum 12, ''amount'' \<mapsto> JNum 15,
           ''Date'' \<mapsto> JStr ''1/5/2024'', ''date'' \<mapsto> JStr ''2023-12-31''] 0) ''amount''
     = Some (JNum 12)
   \<and> fst (transformExpense (\<lambda>v. []) (\<lambda>v. v) ''2024-06-01''
          [''Sub-Category'' \<mapsto> JStr ''Feed'', ''subCategory'' \<mapsto> JStr ''Fodder'',
           ''Amount'' \<mapsto> JNum 12, ''amount'' \<mapsto> JNum 15,
           ''Date'' \<mapsto> JStr ''1/5/2024'', ''date'' \<mapsto> JStr ''2023-12-31''] 0) ''date''
     = Some (JStr ''2024-01-05'')
   \<and> fst (transformExpense (\<lambda>v. []) (\<lambda>v. v) ''2024-06-01''
          [''Sub-Category'' \<mapsto> JStr [], ''subCategory'' \<mapsto> JStr ''Fodder''] 0) ''subCategory''
     = Some (JStr ''Fodder'')"
  using transformExpense_prefers_label[of "''subCategory''" "''Sub-Category''" "''subCategory''"
      "[''Sub-Category'' \<mapsto> JStr ''Feed'', ''subCategory'' \<mapsto> JStr ''Fodder'',
           ''Amount'' \<mapsto> JNum 12, ''amount'' \<mapsto> JNum 15,
           ''Date'' \<mapsto> JStr ''1/5/2024'', ''date'' \<mapsto> JStr ''2023-12-31'']"
      "\<lambda>v. []" "\<lambda>v. v" "''2024-06-01''" 0]
    transformExpense_prefers_label[of "''subCategory''" "''Sub-Category''" "''subCategory''"
      "[''Sub-Category'' \<mapsto> JStr [], ''subCategory'' \<mapsto> JStr ''Fodder'']"
      "\<lambda>v. []" "\<lambda>v. v" "''2024-06-01''" 0]
    formatDate_examples[of "\<lambda>v. []" "''2024-06-01''"]
  by (simp add: get_def)

section \<open>Properties of expense ingestion\<close>

lemma console_write_fields [simp]:
  "categories (console_write c s) = categories s"
  "expenses (console_write c s) = expenses s"
  "category_seq (console_write c s) = category_seq s"
  "expense_seq (console_write c s) = expense_seq s"
  "calls (console_write c s) = calls s"
  by (simp_all add: console_write_def)

lemma logger_log_fields [simp]:
  "categories (logger_log F l m src s) = categories s"
  "expenses (logger_log F l m src s) = expenses s"
  "category_seq (logger_log F l m src s) = category_seq s"
  "expense_seq (logger_log F l m src s) = expense_seq s"
  "calls (logger_log F l m src s) = Suc (calls s)"
  by (simp_all add: logger_log_def)

lemma select_category_state:
  "snd (select_category F v s) = s\<lparr>calls := Suc (calls s)\<rparr>"
  by (simp add: select_category_def Let_def split: list.splits)

lemma select_category_fields [simp]:
  "categories (snd (select_category F v s)) = categories s"
  "expenses (snd (select_category F v s)) = expenses s"
  "category_seq (snd (select_category F v s)) = category_seq s"
  "expense_seq (snd (select_category F v s)) = expense_seq s"
  "calls (snd (select_category F v s)) = Suc (calls s)"
  by (simp_all add: select_category_state)

lemma insert_category_fault:
  "F (calls s) \<Longrightarrow> insert_category F nm subs s = (None, s\<lparr>calls := Suc (calls s)\<rparr>)"
  by (simp add: insert_category_def)

lemma insert_category_ok:
  "\<not> F (calls s) \<Longrightarrow> insert_category F nm subs s =
     (Some (category_seq s),
      s\<lparr>categories := categories s
            @ [\<lparr>cat_id = category_seq s, cat_name = nm, subCategories = subs\<rparr>],
        category_seq := Suc (category_seq s),
        calls := Suc (calls s)\<rparr>)"
  by (simp add: insert_category_def)

lemma resolveCategory_create_fails:
  assumes "fst (select_category F (category e) s) = None" and "F (calls s + 2)"
  shows "fst (resolveCategory F e s) = Inl createError
       \<and> expenses (snd (resolveCategory F e s)) = expenses s
       \<and> categories (snd (resolveCategory F e s)) = categories s"
proof -
  obtain s1 where sel: "select_category F (category e) s = (None, s1)"
    using assms(1) by (cases "select_category F (category e) s") simp
  then have s1: "s1 = s\<lparr>calls := Suc (calls s)\<rparr>"
    using select_category_state[of F "category e" s] by simp
  define s2 where "s2 = logger_log F error (''Error fetching category for '' @ str (category e))
                      ''expenses.insertExpense'' s1"
  have "calls s2 = calls s + 2" by (simp add: s2_def s1)
  then have ins: "insert_category F (category e) [subCategory e] s2
      = (None, s2\<lparr>calls := Suc (calls s2)\<rparr>)"
    using assms(2) by (simp add: insert_category_fault)
  have "resolveCategory F e s = (Inl createError,
          logger_log F error (''Error creating category '' @ str (category e))
            ''expenses.insertExpense'' (s2\<lparr>calls := Suc (calls s2)\<rparr>))"
    using ins unfolding s2_def resolveCategory_def sel by (simp add: Let_def)
  then show ?thesis by (simp add: s2_def s1)
qed

text \<open>
  C5. When the lookup of the category reports an error and the creation of the category,
  the third request to the store after the lookup and the logger's insert, fails, then
  \<^verbatim>\<open>insertExpense\<close> throws the creation's error and the tables \<^verbatim>\<open>expenses\<close> and
  \<^verbatim>\<open>categories\<close> are as before: no expense row is stored, with whatever
  \<open>categoryId\<close>. \<^verbatim>\<open>addExpense\<close> answers a valid expense with status 500.
\<close>

theorem insertExpense_category_creation_fails:
  assumes "fst (select_category F (category e) s) = None" and "F (calls s + 2)"
  shows "fst (insertExpense F e s) = Inl createError
       \<and> expenses (snd (insertExpense F e s)) = expenses s
       \<and> categories (snd (insertExpense F e s)) = categories s
       \<and> (truthy (of_str (description e)) \<and> truthy (of_num (amount e))
            \<and> truthy (of_str (category e)) \<longrightarrow>
          fst (addExpense F e s) = \<lparr>status = 500, body = ErrorBody ''Failed to add expense''\<rparr>
          \<and> expenses (snd (addExpense F e s)) = expenses s)"
proof -
  let ?s0 = "console_write (ConsoleLog ''Attempting to insert expense:'') s"
  have sel: "fst (select_category F (category e) ?s0) = None"
    using assms(1) by (simp add: select_category_def Let_def split: list.splits if_splits)
  have "F (calls ?s0 + 2)" using assms(2) by simp
  from resolveCategory_create_fails[OF sel this]
  obtain s1 where r: "resolveCategory F e ?s0 = (Inl createError, s1)"
    and s1: "expenses s1 = expenses s" "categories s1 = categories s"
    by (cases "resolveCategory F e ?s0") auto
  have ie: "insertExpense F e s
      = (Inl createError, console_write (ConsoleError ''Error inserting expense:'') s1)"
    by (simp add: insertExpense_def r)
  show ?thesis using s1 by (simp add: ie addExpense_def)
qed

theorem insertExpense_category_creation_fails_witness:
  "fst (select_category (\<lambda>k. k = 2) (category hay) empty_store) = None
   \<and> fst (insertExpense (\<lambda>k. k = 2) hay empty_store) = Inl createError
   \<and> expenses (snd (insertExpense (\<lambda>k. k = 2) hay empty_store)) = []
   \<and> fst (addExpense (\<lambda>k. k = 2) hay empty_store)
       = \<lparr>status = 500, body = ErrorBody ''Failed to add expense''\<rparr>
   \<and> expenses (snd (addExpense (\<lambda>k. k = 2) hay empty_store)) = []"
proof -
  have sel: "fst (select_category (\<lambda>k. k = 2) (category hay) empty_store) = None"
    by (simp add: select_category_def)
  have flt: "(\<lambda>k. k = 2) (calls empty_store + 2)" by simp
  show ?thesis
    using insertExpense_category_creation_fails[OF sel flt] sel
    by (simp add: of_str_def of_num_def)
qed

text \<open>
  C1. An expense whose description, amount or category is missing, empty or zero is
  answered with status 400, and the state is the one before the request: the store
  received no request (\<open>calls\<close> is unchanged) and no category row was created.
\<close>

theorem addExpense_validation:
  assumes "description e = None \<or> description e = Some [] \<or> amount e = None
         \<or> amount e = Some 0 \<or> category e = None \<or> category e = Some []"
  shows "addExpense F e s = (\<lparr>status = 400, body = ErrorBody ''Missing required fields''\<rparr>, s)
       \<and> calls (snd (addExpense F e s)) = calls s
       \<and> categories (snd (addExpense F e s)) = categories s"
  using assms by (auto simp: addExpense_def of_str_def of_num_def)

theorem addExpense_validation_witness:
  "addExpense no_faults (hay\<lparr>amount := None, category := Some ''Poultry''\<rparr>) empty_store
     = (\<lparr>status = 400, body = ErrorBody ''Missing required fields''\<rparr>, empty_store)
   \<and> categories (snd (addExpense no_faults (hay\<lparr>amount := None, category := Some ''Poultry''\<rparr>)
        empty_store)) = []
   \<and> status (fst (addExpense no_faults (hay\<lparr>category := Some ''Poultry''\<rparr>) empty_store)) = 201
   \<and> map cat_name (categories (snd (addExpense no_faults (hay\<lparr>category := Some ''Poultry''\<rparr>)
        empty_store))) = [Some ''Poultry'']"
proof -
  have "addExpense no_faults (hay\<lparr>amount := None, category := Some ''Poultry''\<rparr>) empty_store
     = (\<lparr>status = 400, body = ErrorBody ''Missing required fields''\<rparr>, empty_store)
   \<and> categories (snd (addExpense no_faults (hay\<lparr>amount := None, category := Some ''Poultry''\<rparr>)
        empty_store)) = []"
    using addExpense_validation[of "hay\<lparr>amount := None, category := Some ''Poultry''\<rparr>"
        no_faults empty_store]
    by simp
  moreover have "status (fst (addExpense no_faults (hay\<lparr>category := Some ''Poultry''\<rparr>) empty_store)) = 201
   \<and> map cat_name (categories (snd (addExpense no_faults (hay\<lparr>category := Some ''Poultry''\<rparr>)
        empty_store))) = [Some ''Poultry'']"
    by (simp add: addExpense_def of_str_def of_num_def insertExpense_def resolveCategory_def
          select_category_def insert_category_def insert_expense_def logger_log_def
          console_write_def str_def Let_def)
  ultimately show ?thesis by simp
qed

lemma select_category_found:
  assumes "\<not> F (calls s)"
      and "filter (\<lambda>r. cat_name r = Some (str v)) (categories s) = [r]"
  shows "select_category F v s = (Some (cat_id r), s\<lparr>calls := Suc (calls s)\<rparr>)"
  using assms by (simp add: select_category_def)

lemma select_category_none:
  assumes "filter (\<lambda>r. cat_name r = Some (str v)) (categories s) = []"
  shows "select_category F v s = (None, s\<lparr>calls := Suc (calls s)\<rparr>)"
  using assms by (simp add: select_category_def Let_def)

lemma resolveCategory_found:
  assumes "\<not> F (calls s)"
      and "filter (\<lambda>r. cat_name r = Some (str (category e))) (categories s) = [r]"
  shows "fst (resolveCategory F e s) = Inr (cat_id r)
       \<and> categories (snd (resolveCategory F e s)) = categories s
       \<and> expenses (snd (resolveCategory F e s)) = expenses s"
  using assms unfolding resolveCategory_def
  by (simp add: select_category_found[of F s "category e" r])

lemma resolveCategory_created:
  assumes "filter (\<lambda>r. cat_name r = Some (str (category e))) (categories s) = []"
      and "\<not> F (calls s + 2)"
  shows "fst (resolveCategory F e s) = Inr (category_seq s)
       \<and> categories (snd (resolveCategory F e s))
           = categories s @ [\<lparr>cat_id = category_seq s, cat_name = category e,
                               subCategories = [subCategory e]\<rparr>]
       \<and> expenses (snd (resolveCategory F e s)) = expenses s"
proof -
  define s2 where "s2 = logger_log F error (''Error fetching category for '' @ str (category e))
                      ''expenses.insertExpense'' (s\<lparr>calls := Suc (calls s)\<rparr>)"
  have "calls s2 = calls s + 2" by (simp add: s2_def)
  then have "\<not> F (calls s2)" using assms(2) by simp
  then have ins: "insert_category F (category e) [subCategory e] s2 =
     (Some (category_seq s2),
      s2\<lparr>categories := categories s2
            @ [\<lparr>cat_id = category_seq s2, cat_name = category e,
                 subCategories = [subCategory e]\<rparr>],
        category_seq := Suc (category_seq s2),
        calls := Suc (calls s2)\<rparr>)"
    by (rule insert_category_ok)
  show ?thesis
    using ins unfolding s2_def resolveCategory_def select_category_none[OF assms(1)]
    by (simp add: Let_def)
qed

lemma insertExpense_resolved:
  assumes "\<forall>k. \<not> F k"
      and "fst (resolveCategory F e (console_write c s)) = Inr i"
      and "c = ConsoleLog ''Attempting to insert expense:''"
  shows "\<exists>row. fst (insertExpense F e s) = Inr row \<and> categoryId row = i
       \<and> categories (snd (insertExpense F e s))
           = categories (snd (resolveCategory F e (console_write c s)))"
proof -
  obtain s1 where r: "resolveCategory F e (console_write c s) = (Inr i, s1)"
    using assms(2) by (cases "resolveCategory F e (console_write c s)") simp
  show ?thesis
    using assms(1) r unfolding insertExpense_def assms(3)[symmetric]
    by (simp add: insert_expense_def Let_def)
qed

lemma resolveCategory_no_faults:
  assumes "\<forall>k. \<not> F k" and "category e = Some n"
      and "length (filter (\<lambda>r. cat_name r = Some n) (categories s)) \<le> 1"
  shows "\<exists>r. fst (resolveCategory F e s) = Inr (cat_id r)
           \<and> filter (\<lambda>r. cat_name r = Some n) (categories (snd (resolveCategory F e s))) = [r]"
proof (cases "filter (\<lambda>r. cat_name r = Some n) (categories s)")
  case Nil
  then have "filter (\<lambda>r. cat_name r = Some (str (category e))) (categories s) = []"
    by (simp add: assms(2) str_def)
  from resolveCategory_created[of e s F] this assms(1,2) Nil
  show ?thesis by simp
next
  case (Cons r rs)
  then have "rs = []" using assms(3) by simp
  then have "filter (\<lambda>r. cat_name r = Some (str (category e))) (categories s) = [r]"
    using Cons by (simp add: assms(2) str_def)
  from resolveCategory_found[of F s e r] this assms(1) Cons \<open>rs = []\<close>
  show ?thesis by simp
qed

text \<open>
  When the store holds at most one category row of the name and none of its requests
  fails, two ingestions in a row of expenses with that category name resolve it to the
  same id, and the second leaves the table \<^verbatim>\<open>categories\<close> as the first left it. The
  code keeps neither condition, and without them the property fails, as shown below.
\<close>

lemma resolveCategory_idempotent_when_unique:
  assumes "\<forall>k. \<not> F k" and "category e1 = Some n" and "category e2 = Some n"
      and "length (filter (\<lambda>r. cat_name r = Some n) (categories s)) \<le> 1"
  shows "(\<exists>i. fst (resolveCategory F e1 s) = Inr i
            \<and> fst (resolveCategory F e2 (snd (resolveCategory F e1 s))) = Inr i
            \<and> categories (snd (resolveCategory F e2 (snd (resolveCategory F e1 s))))
                = categories (snd (resolveCategory F e1 s)))
       \<and> (\<exists>row1 row2. fst (insertExpense F e1 s) = Inr row1
            \<and> fst (insertExpense F e2 (snd (insertExpense F e1 s))) = Inr row2
            \<and> categoryId row2 = categoryId row1
            \<and> categories (snd (insertExpense F e2 (snd (insertExpense F e1 s))))
                = categories (snd (insertExpense F e1 s)))"
proof (intro conjI)
  have again: "fst (resolveCategory F e2 t) = Inr (cat_id r)
        \<and> categories (snd (resolveCategory F e2 t)) = categories t"
    if "filter (\<lambda>r. cat_name r = Some n) (categories t) = [r]" for t r
  proof -
    have "filter (\<lambda>r. cat_name r = Some (str (category e2))) (categories t) = [r]"
      using that by (simp add: assms(3) str_def)
    from resolveCategory_found[of F t e2 r] this assms(1) show ?thesis by simp
  qed
  show "\<exists>i. fst (resolveCategory F e1 s) = Inr i
            \<and> fst (resolveCategory F e2 (snd (resolveCategory F e1 s))) = Inr i
            \<and> categories (snd (resolveCategory F e2 (snd (resolveCategory F e1 s))))
                = categories (snd (resolveCategory F e1 s))"
    using resolveCategory_no_faults[OF assms(1,2,4)] again by blast
  let ?c = "ConsoleLog ''Attempting to insert expense:''"
  let ?t1 = "snd (resolveCategory F e1 (console_write ?c s))"
  let ?s1 = "snd (insertExpense F e1 s)"
  have "length (filter (\<lambda>r. cat_name r = Some n) (categories (console_write ?c s))) \<le> 1"
    using assms(4) by simp
  from resolveCategory_no_faults[OF assms(1,2) this]
  obtain r where r: "fst (resolveCategory F e1 (console_write ?c s)) = Inr (cat_id r)"
      "filter (\<lambda>r. cat_name r = Some n) (categories ?t1) = [r]"
    by blast
  from insertExpense_resolved[OF assms(1) r(1)]
  obtain row1 where row1: "fst (insertExpense F e1 s) = Inr row1" "categoryId row1 = cat_id r"
      "categories ?s1 = categories ?t1"
    by blast
  have "filter (\<lambda>r. cat_name r = Some n) (categories (console_write ?c ?s1)) = [r]"
    using r(2) row1(3) by simp
  from again[OF this]
  have r2: "fst (resolveCategory F e2 (console_write ?c ?s1)) = Inr (cat_id r)"
      "categories (snd (resolveCategory F e2 (console_write ?c ?s1))) = categories ?s1"
    by simp_all
  from insertExpense_resolved[OF assms(1) r2(1)]
  obtain row2 where "fst (insertExpense F e2 ?s1) = Inr row2" "categoryId row2 = cat_id r"
      "categories (snd (insertExpense F e2 ?s1))
         = categories (snd (resolveCategory F e2 (console_write ?c ?s1)))"
    by blast
  then show "\<exists>row1 row2. fst (insertExpense F e1 s) = Inr row1
            \<and> fst (insertExpense F e2 (snd (insertExpense F e1 s))) = Inr row2
            \<and> categoryId row2 = categoryId row1
            \<and> categories (snd (insertExpense F e2 (snd (insertExpense F e1 s))))
                = categories (snd (insertExpense F e1 s))"
    using row1 r2(2) by simp
qed

lemmas ingest_defs = insertExpense_def resolveCategory_def select_category_def
  insert_category_def insert_expense_def logger_log_def console_write_def str_def
  or_null_def of_str_def of_num_def Let_def

text \<open>
  C9. Resolving the same category name twice in a row does not always give the same id.
  The category block creates a row on every error of the lookup, although its comment
  reads \<^verbatim>\<open>If category doesn't exist, create it\<close>; and \<^verbatim>\<open>single()\<close> reports an
  error when more than one row has the name. On a store with two rows named
  \<^verbatim>\<open>Feed\<close> (ids 1 and 2) and no failing request, two ingestions for \<^verbatim>\<open>Feed\<close> get
  the ids 3 and 4 and leave four rows. On a store with one such row, when only the first
  lookup fails, they get the ids 2 and 3 and leave three rows.
\<close>

theorem insertExpense_resolves_to_new_ids:
  "(let twice = empty_store
          \<lparr>categories := [\<lparr>cat_id = 1, cat_name = Some ''Feed'', subCategories = [Some ''Fodder'']\<rparr>,
                          \<lparr>cat_id = 2, cat_name = Some ''Feed'', subCategories = [Some ''Hay'']\<rparr>],
            category_seq := 3\<rparr>;
        after = snd (insertExpense no_faults hay (snd (insertExpense no_faults hay twice)))
    in map categoryId (expenses after) = [3, 4]
     \<and> map cat_id (categories after) = [1, 2, 3, 4]
     \<and> map cat_name (categories after)
         = [Some ''Feed'', Some ''Feed'', Some ''Feed'', Some ''Feed''])
   \<and> (let once = empty_store
          \<lparr>categories := [\<lparr>cat_id = 1, cat_name = Some ''Feed'', subCategories = [Some ''Fodder'']\<rparr>],
            category_seq := 2\<rparr>;
          first_lookup_fails = (\<lambda>k. k = 0);
          after = snd (insertExpense first_lookup_fails hay
                    (snd (insertExpense first_lookup_fails hay once)))
      in map categoryId (expenses after) = [2, 3]
       \<and> map cat_id (categories after) = [1, 2, 3])"
  by (simp add: ingest_defs)

text \<open>
  C4. A category that is not found is created and its new id is used, and a category
  that is found is not created again (\<open>resolveCategory_created\<close>,
  \<open>resolveCategory_found\<close>). But the new row's \<open>subCategories\<close> is always the
  one-element list of the expense's sub-category: for an expense without a sub-category
  it holds the absent value, not \<^verbatim>\<open>"General"\<close>. The update handler builds the list as
  \<^verbatim>\<open>[updatedExpense.subCategory || "General"]\<close>; here the alternative is applied to
  the array, which is never falsy.
\<close>

theorem insertExpense_subCategories_not_General:
  "categories (snd (insertExpense no_faults (hay\<lparr>subCategory := None\<rparr>) empty_store))
     = [\<lparr>cat_id = 1, cat_name = Some ''Feed'', subCategories = [None]\<rparr>]
   \<and> map subCategories
        (categories (snd (insertExpense no_faults (hay\<lparr>subCategory := None\<rparr>) empty_store)))
     \<noteq> [[Some ''General'']]"
  by (simp add: ingest_defs)

lemma insertExpense_expenses:
  "expenses (snd (insertExpense F e s)) =
     (case fst (insertExpense F e s) of Inr row \<Rightarrow> expenses s @ [row] | Inl err \<Rightarrow> expenses s)"
proof -
  let ?c = "ConsoleLog ''Attempting to insert expense:''"
  have rc: "expenses (snd (resolveCategory F e t)) = expenses t" for t
    by (simp add: resolveCategory_def insert_category_def Let_def
          split: prod.splits option.splits)
      (metis select_category_fields(2) snd_conv)
  obtain r s1 where r: "resolveCategory F e (console_write ?c s) = (r, s1)"
    by (cases "resolveCategory F e (console_write ?c s)")
  then have s1: "expenses s1 = expenses s" using rc[of "console_write ?c s"] by simp
  show ?thesis
    using s1 by (cases r) (simp_all add: insertExpense_def r insert_expense_def Let_def)
qed

lemma importLoop_counts:
  "importLoop F xs (n, errs, s) = (n', errs', s') \<Longrightarrow>
     n' + length errs' = n + length errs + length xs
     \<and> n \<le> n' \<and> length (expenses s') = length (expenses s) + (n' - n)"
proof (induction xs arbitrary: n errs s)
  case Nil
  then show ?case by simp
next
  case (Cons x xs)
  obtain r s1 where r: "insertExpense F x s = (r, s1)" by (cases "insertExpense F x s")
  have ex: "expenses s1 = (case r of Inr row \<Rightarrow> expenses s @ [row] | Inl err \<Rightarrow> expenses s)"
    using insertExpense_expenses[of F x s] r by simp
  show ?case
  proof (cases r)
    case (Inl err)
    with Cons.prems r have "importLoop F xs (n, errs @ [''Failed to import: '' @ str (description x)],
        console_write (ConsoleError (''Error importing expense: '' @ str (description x) @ '':'')) s1)
        = (n', errs', s')"
      by simp
    from Cons.IH[OF this] ex Inl show ?thesis by simp
  next
    case (Inr row)
    with Cons.prems r have "importLoop F xs (n + 1, errs, s1) = (n', errs', s')" by simp
    from Cons.IH[OF this] ex Inr show ?thesis by simp arith
  qed
qed

lemma importExpenses_counts:
  assumes "importExpenses F (Some xs) s = (r, s')"
  shows "status r = 200 \<and> totalCount (body r) = length xs
       \<and> successCount (body r) + (case errors (body r) of None \<Rightarrow> 0 | Some es \<Rightarrow> length es)
           = length xs
       \<and> errors (body r) \<noteq> Some []
       \<and> length (expenses s') = length (expenses s) + successCount (body r)"
proof -
  obtain n errs s1 where l: "importLoop F xs (0, [], s) = (n, errs, s1)"
    by (cases "importLoop F xs (0, [], s)")
  from importLoop_counts[OF l] assms l show ?thesis
    by (auto simp: importExpenses_def split: if_splits)
qed

text \<open>
  C6. The import loop handles every record, counts the calls that returned and collects
  a message for each that threw (\<open>importExpenses_counts\<close>). But it calls
  \<^verbatim>\<open>insertExpense\<close> without the test of required fields that \<^verbatim>\<open>addExpense\<close> makes:
  unless the store itself rejects the row, a record without a description is stored
  and counted as a success.
\<close>

theorem importExpenses_no_validation:
  "fst (importExpenses no_faults (Some [hay, hay\<lparr>description := None\<rparr>]) empty_store)
     = \<lparr>status = 200, body = ImportBody ''Import completed'' 2 2 None\<rparr>
   \<and> map description
        (expenses (snd (importExpenses no_faults (Some [hay, hay\<lparr>description := None\<rparr>])
           empty_store)))
     = [Some ''Hay'', None]"
  by (simp add: importExpenses_def ingest_defs)

section \<open>Properties of bulk deletion\<close>

lemma numericIds_length:
  "length (numericIds parseInt xs) = length (filter (\<lambda>x. parseInt x \<noteq> None) xs)"
  by (simp add: numericIds_def filter_map comp_def)

lemma parseInt_examples:
  "parseInt_ascii ''12'' = Some 12 \<and> parseInt_ascii ''abc'' = None \<and> parseInt_ascii '' 7 '' = Some 7
   \<and> parseInt_ascii ''0x1F'' = Some 31 \<and> parseInt_ascii ''-3x'' = Some (- 3) \<and> parseInt_ascii [] = None"
  by (simp add: parseInt_ascii_def is_space_def digit_value_def)

text \<open>
  C10. When at least one id parses, the request to the store is made and, if it
  succeeds, \<open>deletedCount\<close> is the number of ids that parse, whatever rows the store
  held; when none parses, the answer is status 400 and the state is untouched.
\<close>

theorem bulkDeleteExpenses_deletedCount:
  "((\<exists>x\<in>set xs. parseInt x \<noteq> None) \<and> \<not> F (calls s) \<longrightarrow>
      fst (bulkDeleteExpenses parseInt F (Some xs) s)
        = \<lparr>status = 200,
           body = DeleteBody ''Expenses deleted successfully''
                    (length (filter (\<lambda>x. parseInt x \<noteq> None) xs))\<rparr>)
   \<and> ((\<exists>x\<in>set xs. parseInt x \<noteq> None) \<and> F (calls s) \<longrightarrow>
      fst (bulkDeleteExpenses parseInt F (Some xs) s)
        = \<lparr>status = 500, body = ErrorBody ''Failed to delete expenses''\<rparr>)
   \<and> ((\<forall>x\<in>set xs. parseInt x = None) \<longrightarrow>
      bulkDeleteExpenses parseInt F (Some xs) s
        = (\<lparr>status = 400, body = ErrorBody ''No valid IDs provided''\<rparr>, s))"
proof -
  have len: "length (numericIds parseInt xs) = 0 \<longleftrightarrow> (\<forall>x\<in>set xs. parseInt x = None)"
    by (simp add: numericIds_length filter_empty_conv)
  show ?thesis
    unfolding bulkDeleteExpenses_def option.case len
    by (auto simp: delete_expenses_def numericIds_length)
qed

theorem bulkDeleteExpenses_deletedCount_witness:
  "fst (bulkDeleteExpenses parseInt_ascii no_faults (Some [''12'', ''abc'', '' 7 '', ''0x1F''])
        empty_store)
     = \<lparr>status = 200, body = DeleteBody ''Expenses deleted successfully'' 3\<rparr>
   \<and> expenses (snd (bulkDeleteExpenses parseInt_ascii no_faults (Some [''12'', ''abc'', '' 7 '', ''0x1F''])
        empty_store)) = expenses empty_store
   \<and> bulkDeleteExpenses parseInt_ascii no_faults (Some [''abc'', []]) empty_store
     = (\<lparr>status = 400, body = ErrorBody ''No valid IDs provided''\<rparr>, empty_store)"
proof -
  note ex = parseInt_examples
  have a: "(\<exists>x\<in>set [''12'', ''abc'', '' 7 '', ''0x1F'']. parseInt_ascii x \<noteq> None)
        \<and> \<not> no_faults (calls empty_store)"
    using ex by simp
  have b: "\<forall>x\<in>set [''abc'', []]. parseInt_ascii x = None" using ex by simp
  have n: "length (filter (\<lambda>x. parseInt_ascii x \<noteq> None) [''12'', ''abc'', '' 7 '', ''0x1F'']) = 3"
    using ex by simp
  have e: "expenses (snd (bulkDeleteExpenses parseInt_ascii no_faults (Some [''12'', ''abc'', '' 7 '', ''0x1F''])
        empty_store)) = expenses empty_store"
    using a by (simp add: bulkDeleteExpenses_def delete_expenses_def numericIds_length n)
  have t1: "fst (bulkDeleteExpenses parseInt_ascii no_faults (Some [''12'', ''abc'', '' 7 '', ''0x1F'']) empty_store)
     = \<lparr>status = 200, body = DeleteBody ''Expenses deleted successfully''
         (length (filter (\<lambda>x. parseInt_ascii x \<noteq> None) [''12'', ''abc'', '' 7 '', ''0x1F'']))\<rparr>"
    using bulkDeleteExpenses_deletedCount[of "[''12'', ''abc'', '' 7 '', ''0x1F'']"
        parseInt_ascii no_faults empty_store] a
    by blast
  have t2: "bulkDeleteExpenses parseInt_ascii no_faults (Some [''abc'', []]) empty_store
     = (\<lparr>status = 400, body = ErrorBody ''No valid IDs provided''\<rparr>, empty_store)"
    using bulkDeleteExpenses_deletedCount[of "[''abc'', []]" parseInt_ascii no_faults
        empty_store] b
    by blast
  show ?thesis using t1 t2 e unfolding n by simp
qed

end
